theory Spec2Isabelle
  imports
    Main
    "HOL-Library.Char_ord"
    "HOL-Library.List_Lexorder"
    "HOL-Library.Multiset"
    "HOL-Library.Sublist"
begin

section \<open>Go values used by taskg\<close>

text \<open>
  Go strings are byte sequences (\<open>string\<close>, compared bytewise and lexicographically by
  \<open><\<close>), a \<open>rune\<close> is a code point, an \<open>error\<close> is its message and \<open>nil\<close> is
  \<open>None\<close>. Go's \<open>int\<close> is modelled by \<open>int\<close>: the program only adds and subtracts
  list lengths and screen coordinates.
\<close>

type_synonym rune = int
type_synonym err = string

text \<open>\<open>string(r)\<close>: the UTF-8 encoding of a rune; an invalid one encodes U+FFFD.\<close>

definition utf8 :: "rune \<Rightarrow> string" where
  "utf8 r =
     (if r < 0 \<or> 1114111 < r \<or> (55296 \<le> r \<and> r \<le> 57343) then
        [char_of (239::int), char_of (191::int), char_of (189::int)]
      else if r < 128 then [char_of r]
      else if r < 2048 then [char_of (192 + r div 64), char_of (128 + r mod 64)]
      else if r < 65536 then
        [char_of (224 + r div 4096), char_of (128 + (r div 64) mod 64), char_of (128 + r mod 64)]
      else
        [char_of (240 + r div 262144), char_of (128 + (r div 4096) mod 64),
         char_of (128 + (r div 64) mod 64), char_of (128 + r mod 64)])"

text \<open>\<open>fmt\<close>'s \<open>%v\<close> of an error and \<open>%d\<close> of a non-negative int.\<close>

definition fmt_v :: "err option \<Rightarrow> string" where
  "fmt_v e = (case e of None \<Rightarrow> ''<nil>'' | Some s \<Rightarrow> s)"

definition digit :: "nat \<Rightarrow> char" where
  "digit d = char_of (48 + d)"

function fmt_d :: "nat \<Rightarrow> string" where
  "fmt_d n = (if n < 10 then [digit n] else fmt_d (n div 10) @ [digit (n mod 10)])"
  by pat_completeness auto
termination
  by (relation "measure id") auto

declare fmt_d.simps [simp del]

text \<open>\<open>strings.Join\<close>, \<open>strings.Contains\<close>, \<open>strings.Split(s, "\n")\<close>,
  \<open>strings.Count(s, "\n")\<close>.\<close>

fun Join :: "string list \<Rightarrow> string \<Rightarrow> string" where
  "Join [] sep = []"
| "Join [x] sep = x"
| "Join (x # y # ys) sep = x @ sep @ Join (y # ys) sep"

fun Contains :: "string \<Rightarrow> string \<Rightarrow> bool" where
  "Contains [] sub = (sub = [])"
| "Contains (c # s) sub = (take (length sub) (c # s) = sub \<or> Contains s sub)"

fun SplitLines :: "string \<Rightarrow> string list" where
  "SplitLines [] = [[]]"
| "SplitLines (c # s) =
     (if c = CHR 0x0A then [] # SplitLines s
      else (case SplitLines s of l # ls \<Rightarrow> (c # l) # ls | [] \<Rightarrow> [[c]]))"

definition CountNewlines :: "string \<Rightarrow> int" where
  "CountNewlines s = int (length (filter (\<lambda>c. c = CHR 0x0A) s))"

subsection \<open>Library code outside the repository\<close>

text \<open>
  The Unicode tables of Go's \<open>strings\<close> and \<open>unicode\<close> packages, the styles rendered by
  lipgloss and the editing behaviour of the bubbles text input are not part of the
  repository. Every function of the program takes them as the parameter \<open>L\<close>.
\<close>

record textinput =
  Value :: string
  focused :: bool

datatype KeyType = KeyRunes | KeyNamed string

record KeyMsg =
  Type :: KeyType
  Runes :: "rune list"
  Alt :: bool

datatype Cmd = NoCmd | Quit | TickCmd | RefreshCmd | InputCmd

record golib =
  ToLower :: "string \<Rightarrow> string"
  ToUpper :: "string \<Rightarrow> string"
  TrimSpace :: "string \<Rightarrow> string"
  IsPrint :: "rune \<Rightarrow> bool"
  IsSpace :: "rune \<Rightarrow> bool"
  inputUpdate :: "KeyMsg \<Rightarrow> textinput \<Rightarrow> textinput \<times> Cmd"
  appFrameW :: int
  renderCommandBox :: "int \<Rightarrow> string \<Rightarrow> string"

section \<open>Package taskmeta: task discovery\<close>

record Task =
  Name :: string
  Desc :: string
  Cmds :: "string list"
  Line :: int

text \<open>The decoded output of \<open>task --list --json\<close> (\<open>listJSON\<close>).\<close>

record listJSONTask =
  json_name :: string
  json_desc :: string
  json_line :: int

text \<open>A decoded YAML value (\<open>any\<close>): the dynamic types the code switches on. A mapping is
  listed in the order in which Go's \<open>range\<close> visits it.\<close>

datatype yaml =
    YString string
  | YList "yaml list"
  | YStrings "string list"
  | YMap "(string \<times> yaml) list"
  | YNull
  | YOther

text \<open>What the program observes of its environment during one discovery pass.\<close>

datatype taskfile =
    NoTaskfile
  | ReadError err
  | UnmarshalError err
  | Document "(string \<times> yaml) list"

record world =
  lookPath :: "err option"
  listJSONOut :: "err + listJSONTask list"
  listPlainOut :: "err + string"
  taskfileOut :: taskfile

datatype call = CallLookPath | CallListJSON | CallListPlain | CallParseYAML

definition errOf :: "err + 'a \<Rightarrow> err option" where
  "errOf r = (case r of Inl e \<Rightarrow> Some e | Inr _ \<Rightarrow> None)"

definition tasksOf :: "err + 'a list \<Rightarrow> 'a list" where
  "tasksOf r = (case r of Inl _ \<Rightarrow> [] | Inr ts \<Rightarrow> ts)"

definition listViaJSON :: "err + listJSONTask list \<Rightarrow> err + Task list" where
  "listViaJSON out =
     (case out of
        Inl e \<Rightarrow> Inl e
      | Inr lj \<Rightarrow>
          Inr (map (\<lambda>t. \<lparr>Name = json_name t, Desc = json_desc t, Cmds = [], Line = json_line t\<rparr>) lj))"

text \<open>One line of \<open>task --list\<close>: \<open>* name: desc\<close>.\<close>

definition plainLine :: "golib \<Rightarrow> string \<Rightarrow> Task list" where
  "plainLine L l0 =
     (let l = TrimSpace L l0 in
      if l \<noteq> [] \<and> hd l = CHR ''*'' then
        (let l = TrimSpace L (tl l);
             name = (if CHR '':'' \<in> set l then TrimSpace L (takeWhile (\<lambda>c. c \<noteq> CHR '':'') l) else l);
             desc = (if CHR '':'' \<in> set l then TrimSpace L (tl (dropWhile (\<lambda>c. c \<noteq> CHR '':'') l)) else [])
         in if name \<noteq> [] then [\<lparr>Name = name, Desc = desc, Cmds = [], Line = 0\<rparr>] else [])
      else [])"

definition listViaPlain :: "golib \<Rightarrow> err + string \<Rightarrow> err + Task list" where
  "listViaPlain L out =
     (case out of
        Inl e \<Rightarrow> Inl e
      | Inr s \<Rightarrow> Inr (concat (map (plainLine L) (SplitLines s))))"

fun extractCmds :: "golib \<Rightarrow> yaml \<Rightarrow> string list" where
  "extractCmds L (YString vv) = (if TrimSpace L vv \<noteq> [] then [vv] else [])"
| "extractCmds L (YList vv) = concat (map (extractCmds L) vv)"
| "extractCmds L (YStrings vv) = vv"
| "extractCmds L _ = []"

text \<open>The body of the loop over the \<open>tasks\<close> section.\<close>

definition yamlTask :: "golib \<Rightarrow> string \<times> yaml \<Rightarrow> Task list" where
  "yamlTask L entry =
     (case snd entry of
        YMap rm \<Rightarrow>
          (let desc = (case map_of rm ''desc'' of Some (YString d) \<Rightarrow> d | _ \<Rightarrow> []);
               cmds = (case map_of rm ''cmds'' of Some v \<Rightarrow> extractCmds L v | None \<Rightarrow> []);
               cmds = (if length cmds = 0 then
                         (case map_of rm ''cmd'' of Some v \<Rightarrow> extractCmds L v | None \<Rightarrow> cmds)
                       else cmds)
           in [\<lparr>Name = fst entry, Desc = desc, Cmds = cmds, Line = 0\<rparr>])
      | _ \<Rightarrow> [])"

definition parseTaskfileYAML :: "golib \<Rightarrow> taskfile \<Rightarrow> err + Task list" where
  "parseTaskfileYAML L f =
     (case f of
        NoTaskfile \<Rightarrow> Inl ''no Taskfile found''
      | ReadError e \<Rightarrow> Inl e
      | UnmarshalError e \<Rightarrow> Inl e
      | Document node \<Rightarrow>
          (case map_of node ''tasks'' of
             Some (YMap section) \<Rightarrow> Inr (concat (map (yamlTask L) section))
           | _ \<Rightarrow> Inl ''no tasks map in Taskfile''))"

text \<open>\<open>idx[tasks[i].Name] = &tasks[i]\<close>: the index built by the first loop of
  \<open>enrichTaskCmds\<close>; a later task of the same name replaces an earlier one.\<close>

fun buildIdx :: "Task list \<Rightarrow> nat \<Rightarrow> (string \<rightharpoonup> nat) \<Rightarrow> (string \<rightharpoonup> nat)" where
  "buildIdx [] i idx = idx"
| "buildIdx (t # ts) i idx = buildIdx ts (Suc i) (idx(Name t \<mapsto> i))"

definition enrichOne :: "Task \<Rightarrow> Task \<Rightarrow> Task" where
  "enrichOne p t =
     (let t = (if length (Cmds t) = 0 \<and> length (Cmds p) > 0 then t\<lparr>Cmds := Cmds p\<rparr> else t);
          t = (if Desc t = [] \<and> Desc p \<noteq> [] then t\<lparr>Desc := Desc p\<rparr> else t)
      in t)"

fun enrichLoop :: "(string \<rightharpoonup> nat) \<Rightarrow> Task list \<Rightarrow> Task list \<Rightarrow> Task list" where
  "enrichLoop idx [] tasks = tasks"
| "enrichLoop idx (p # parsed) tasks =
     (case idx (Name p) of
        Some i \<Rightarrow> enrichLoop idx parsed (tasks[i := enrichOne p (tasks ! i)])
      | None \<Rightarrow> enrichLoop idx parsed tasks)"

definition enrichTaskCmds :: "golib \<Rightarrow> taskfile \<Rightarrow> Task list \<Rightarrow> Task list" where
  "enrichTaskCmds L f tasks =
     (let idx = buildIdx tasks 0 Map.empty in
      case parseTaskfileYAML L f of
        Inl e \<Rightarrow> tasks
      | Inr parsed \<Rightarrow> enrichLoop idx parsed tasks)"

text \<open>\<open>DiscoverTasks\<close> returns its result together with the external operations it
  performed, in order.\<close>

definition DiscoverTasks :: "golib \<Rightarrow> world \<Rightarrow> (err + Task list) \<times> call list" where
  "DiscoverTasks L w =
     (case lookPath w of
        Some e \<Rightarrow> (Inl (''task binary not found in PATH: '' @ e), [CallLookPath])
      | None \<Rightarrow>
          (let r = listViaJSON (listJSONOut w) in
           if errOf r = None \<and> length (tasksOf r) > 0 then
             (Inr (enrichTaskCmds L (taskfileOut w) (tasksOf r)),
              [CallLookPath, CallListJSON, CallParseYAML])
           else
             (let rPlain = listViaPlain L (listPlainOut w) in
              if errOf rPlain = None \<and> length (tasksOf rPlain) > 0 then
                (Inr (enrichTaskCmds L (taskfileOut w) (tasksOf rPlain)),
                 [CallLookPath, CallListJSON, CallListPlain, CallParseYAML])
              else
                (let rY = parseTaskfileYAML L (taskfileOut w) in
                 if errOf rY = None \<and> length (tasksOf rY) > 0 then
                   (Inr (tasksOf rY),
                    [CallLookPath, CallListJSON, CallListPlain, CallParseYAML])
                 else
                   (Inl (''failed to discover tasks (json:'' @ fmt_v (errOf r)
                         @ '' plain:'' @ fmt_v (errOf rPlain)
                         @ '' yaml:'' @ fmt_v (errOf rY) @ '')''),
                    [CallLookPath, CallListJSON, CallListPlain, CallParseYAML])))))"

section \<open>Package app: the browser\<close>

text \<open>
  The bubbles text input is a third-party component: the model keeps its text and its
  focus flag. \<open>SetValue\<close>, \<open>Reset\<close> and \<open>Focus\<close> store what they are given; what a key
  press edits (\<open>Update\<close>) is the parameter \<open>inputUpdate\<close>.
\<close>

definition SetValue :: "string \<Rightarrow> textinput \<Rightarrow> textinput" where
  "SetValue s ti = ti\<lparr>Value := s\<rparr>"

definition Reset :: "textinput \<Rightarrow> textinput" where
  "Reset ti = ti\<lparr>Value := []\<rparr>"

definition Focus :: "textinput \<Rightarrow> textinput" where
  "Focus ti = ti\<lparr>focused := True\<rparr>"

text \<open>\<open>msg.String()\<close> of a key: the runes typed, or the name of a named key
  (\<open>up\<close>, \<open>end\<close>, \<open>esc\<close>, \<open>ctrl+s\<close>, ...), after \<open>alt+\<close> when Alt is held.\<close>

definition KeyString :: "KeyMsg \<Rightarrow> string" where
  "KeyString k =
     (if Alt k then ''alt+'' else []) @
     (case Type k of KeyRunes \<Rightarrow> concat (map utf8 (Runes k)) | KeyNamed n \<Rightarrow> n)"

text \<open>The mouse events \<open>handleMouse\<close> distinguishes: \<open>tea.MouseLeft\<close>,
  \<open>tea.MouseLeft | tea.MouseMotion\<close>, and any other.\<close>

datatype MouseEventType = MouseLeft | MouseLeftMotion | MouseOtherEvent

record MouseMsg =
  X :: int
  Y :: int
  Event :: MouseEventType

datatype Msg =
    WindowSize int int
  | Key KeyMsg
  | Mouse MouseMsg
  | Tick
  | Refresh "Task list" "err option"
  | OtherMsg

text \<open>A Go run-time panic: an index outside a slice's range.\<close>

datatype panic = IndexOutOfRange int nat

text \<open>\<open>TaskModel\<close>. The theme is part of \<open>L\<close>; \<open>statusTimeout\<close> is a time in
  nanoseconds; the map \<open>tabTasks\<close> yields \<open>None\<close> for an absent key.\<close>

record TaskModel =
  tasks :: "Task list"
  originalTasks :: "Task list"
  filteredTasks :: "Task list"
  selected :: int
  searchMode :: bool
  searchQuery :: string
  searchInput :: textinput
  mouseEnabled :: bool
  width :: int
  height :: int
  lastCommand :: string
  statusMessage :: string
  statusTimeout :: int
  projectName :: string
  projectRoot :: string
  errorMessage :: string
  quitAfterSelect :: bool
  tabOffset :: int
  headerIndent :: int
  listOffset :: int
  itemHeight :: int
  tabs :: "string list"
  activeTab :: string
  tabTasks :: "string \<rightharpoonup> Task list"
  sortMode :: string

text \<open>The index of the first element satisfying \<open>P\<close>, or \<open>-1\<close>: the loops
  \<open>for i, x := range xs { if P x { idx = i; break } }\<close>.\<close>

fun findIndex :: "('a \<Rightarrow> bool) \<Rightarrow> 'a list \<Rightarrow> int" where
  "findIndex P [] = -1"
| "findIndex P (x # xs) =
     (if P x then 0 else (let i = findIndex P xs in if i < 0 then -1 else i + 1))"

text \<open>Go's integer division truncates towards zero.\<close>

definition go_div :: "int \<Rightarrow> int \<Rightarrow> int" where
  "go_div a b = sgn a * sgn b * (\<bar>a\<bar> div \<bar>b\<bar>)"

definition setStatus :: "int \<Rightarrow> string \<Rightarrow> TaskModel \<Rightarrow> TaskModel" where
  "setStatus now message m = m\<lparr>statusMessage := message, statusTimeout := now + 3000000000\<rparr>"

definition sampleContent :: string where
  "sampleContent =
     ''  '' @ [CHR 0xE2, CHR 0x80, CHR 0xA2] @ '' sample-task - Sample description''
     @ [CHR 0x0A] @ ''    [echo hello | ls -la]''"

definition measureItemHeight :: "golib \<Rightarrow> TaskModel \<Rightarrow> int" where
  "measureItemHeight L m =
     (let termWidth = (if width m \<le> 0 then 100 else width m);
          innerWidth = termWidth - appFrameW L;
          innerWidth = (if innerWidth < 40 then 40 else innerWidth);
          str = renderCommandBox L innerWidth sampleContent @ [CHR 0x0A]
      in CountNewlines str)"

text \<open>\<open>visibleListHeight\<close> caches the measured item height in the model, so it returns
  the model too. Where the code assigns one field several times in a row
  (\<open>m.listOffset\<close>, \<open>m.tabOffset\<close>, \<open>m.selected\<close>), the model threads the value and
  stores it once.\<close>

definition visibleListHeight :: "golib \<Rightarrow> TaskModel \<Rightarrow> int \<times> TaskModel" where
  "visibleListHeight L m0 =
     (let m = (if itemHeight m0 = 0 then
                 (let h = measureItemHeight L m0 in m0\<lparr>itemHeight := (if h \<le> 0 then 7 else h)\<rparr>)
               else m0);
          avail = (if height m \<le> 0 then 24 else height m);
          inner = avail - 4;
          inner = (if inner < 10 then 10 else inner);
          overhead = 2 + 1 + 3;
          overhead = (if length (tabs m) > 1 then overhead + 3 else overhead);
          overhead = (if searchMode m \<or> searchQuery m \<noteq> [] then overhead + 3 else overhead);
          remaining = inner - overhead
      in if remaining < itemHeight m then (1, m)
         else (let items = go_div remaining (itemHeight m)
               in (if items < 1 then 1 else items, m)))"

definition ensureSelectionVisible :: "golib \<Rightarrow> TaskModel \<Rightarrow> TaskModel" where
  "ensureSelectionVisible L m0 =
     (let (listHeight, m) = visibleListHeight L m0;
          offset = listOffset m;
          offset = (if selected m < offset then selected m else offset);
          offset = (if selected m \<ge> offset + listHeight then selected m - listHeight + 1
                    else offset);
          maxOffset = max 0 (int (length (filteredTasks m)) - listHeight);
          offset = (if offset > maxOffset then maxOffset else offset);
          offset = (if offset < 0 then 0 else offset)
      in m\<lparr>listOffset := offset\<rparr>)"

text \<open>The text a query is matched against.\<close>

definition hay :: "golib \<Rightarrow> Task \<Rightarrow> string" where
  "hay L t = ToLower L (Name t @ '' '' @ Desc t @ '' '' @ Join (Cmds t) '' '')"

definition updateFilter :: "golib \<Rightarrow> TaskModel \<Rightarrow> TaskModel" where
  "updateFilter L m =
     (let baseTasks =
            (if searchQuery m \<noteq> [] then tasks m
             else (case tabTasks m (activeTab m) of None \<Rightarrow> [] | Some ts \<Rightarrow> ts));
          filtered =
            (if searchQuery m = [] then baseTasks
             else (let q = ToLower L (searchQuery m)
                   in filter (\<lambda>t. Contains (hay L t) q) baseTasks));
          sel = (if selected m \<ge> int (length filtered) then max 0 (int (length filtered) - 1)
                 else selected m)
      in ensureSelectionVisible L (m\<lparr>filteredTasks := filtered, selected := sel\<rparr>))"

text \<open>\<open>strings.SplitN(task.Name, "-", 2)\<close>: the part before the first \<open>-\<close>, or
  \<open>main\<close> when there is none.\<close>

definition tabPrefix :: "string \<Rightarrow> string" where
  "tabPrefix name =
     (if CHR ''-'' \<in> set name then takeWhile (\<lambda>c. c \<noteq> CHR ''-'') name else ''main'')"

text \<open>The first loop of \<open>buildTabs\<close>, over \<open>prefixMap\<close>, \<open>prefixes\<close> (here \<open>prefixList\<close>) and \<open>prefixSet\<close>.\<close>

fun groupTasks ::
  "Task list \<Rightarrow> (string \<rightharpoonup> Task list) \<times> string list \<times> (string \<Rightarrow> bool)
   \<Rightarrow> (string \<rightharpoonup> Task list) \<times> string list \<times> (string \<Rightarrow> bool)" where
  "groupTasks [] st = st"
| "groupTasks (task # rest) (prefixMap, prefixList, prefixSet) =
     (let prefix = tabPrefix (Name task);
          prefixList' = (if \<not> prefixSet prefix then prefixList @ [prefix] else prefixList);
          prefixSet' = (if \<not> prefixSet prefix then prefixSet(prefix := True) else prefixSet);
          prefixMap' =
            prefixMap(prefix \<mapsto> (case prefixMap prefix of None \<Rightarrow> [] | Some l \<Rightarrow> l) @ [task])
      in groupTasks rest (prefixMap', prefixList', prefixSet'))"

text \<open>\<open>sort.SliceStable\<close> by name or by line: the stable sort on that key.\<close>

definition sortTab :: "string \<Rightarrow> Task list \<Rightarrow> Task list" where
  "sortTab mode ts = (if mode = ''alpha'' then sort_key Name ts else sort_key Line ts)"

definition buildTabs :: "TaskModel \<Rightarrow> TaskModel" where
  "buildTabs m =
     (let (prefixMap, prefixList, prefixSet) =
            groupTasks (originalTasks m) (Map.empty, [], \<lambda>p. False);
          prefixMap = (\<lambda>p. map_option (sortTab (sortMode m)) (prefixMap p));
          prefixList = (if sortMode m = ''alpha'' then sort prefixList else prefixList);
          mainIndex = findIndex (\<lambda>p. p = ''main'') prefixList;
          prefixList =
            (if mainIndex > 0
             then ''main'' # (take (nat mainIndex) prefixList @ drop (nat mainIndex + 1) prefixList)
             else prefixList);
          foundActive = (activeTab m \<in> set prefixList);
          active = (if \<not> foundActive \<and> length prefixList > 0 then prefixList ! 0
                    else activeTab m)
      in m\<lparr>tabs := prefixList, tabTasks := prefixMap, activeTab := active\<rparr>)"

definition titleCase :: "golib \<Rightarrow> string \<Rightarrow> string" where
  "titleCase L s = (if length s = 0 then s else ToUpper L (take 1 s) @ ToLower L (drop 1 s))"

text \<open>The loop of \<open>ensureTabVisible\<close> that counts the tabs fitting the width.\<close>

fun countVisibleTabs :: "golib \<Rightarrow> int \<Rightarrow> string list \<Rightarrow> int \<Rightarrow> int \<Rightarrow> int" where
  "countVisibleTabs L availableWidth [] currentWidth visibleCount = visibleCount"
| "countVisibleTabs L availableWidth (tab # rest) currentWidth visibleCount =
     (let tabName = (if tab = ''main'' then ''Main'' else titleCase L tab);
          tabWidth = int (length tabName) + 8
      in if currentWidth + tabWidth > availableWidth then visibleCount
         else countVisibleTabs L availableWidth rest (currentWidth + tabWidth) (visibleCount + 1))"

definition ensureTabVisible :: "golib \<Rightarrow> int \<Rightarrow> TaskModel \<Rightarrow> TaskModel" where
  "ensureTabVisible L tabIndex m =
     (if length (tabs m) \<le> 1 then m
      else
        (let availableWidth = width m - 14;
             availableWidth = (if availableWidth < 20 then 20 else availableWidth);
             visibleCount = countVisibleTabs L availableWidth (tabs m) 0 0;
             visibleCount = (if visibleCount = 0 then 1 else visibleCount);
             offset = (if tabIndex < tabOffset m then tabIndex
                       else if tabIndex \<ge> tabOffset m + visibleCount
                       then tabIndex - visibleCount + 1 else tabOffset m);
             maxOffset = int (length (tabs m)) - visibleCount;
             maxOffset = (if maxOffset < 0 then 0 else maxOffset);
             offset = (if offset > maxOffset then maxOffset else offset);
             offset = (if offset < 0 then 0 else offset)
         in m\<lparr>tabOffset := offset\<rparr>))"

definition moveToNextTab :: "golib \<Rightarrow> TaskModel \<Rightarrow> TaskModel" where
  "moveToNextTab L m0 =
     (if length (tabs m0) \<le> 1 then m0
      else
        (let currentIndex = findIndex (\<lambda>tab. tab = activeTab m0) (tabs m0);
             m = (if currentIndex \<ge> 0 \<and> currentIndex < int (length (tabs m0)) - 1 then
                    (let nextIndex = currentIndex + 1
                     in ensureTabVisible L nextIndex (m0\<lparr>activeTab := tabs m0 ! nat nextIndex\<rparr>))
                  else m0)
         in updateFilter L m))"

definition moveToPrevTab :: "golib \<Rightarrow> TaskModel \<Rightarrow> TaskModel" where
  "moveToPrevTab L m0 =
     (if length (tabs m0) \<le> 1 then m0
      else
        (let currentIndex = findIndex (\<lambda>tab. tab = activeTab m0) (tabs m0);
             m = (if currentIndex \<ge> 0 \<and> currentIndex > 0 then
                    (let prevIndex = currentIndex - 1
                     in ensureTabVisible L prevIndex (m0\<lparr>activeTab := tabs m0 ! nat prevIndex\<rparr>))
                  else m0)
         in updateFilter L m))"

text \<open>The loop of \<open>getTabIndexAtX\<close>, from tab \<open>i\<close> at column \<open>pos\<close>.\<close>

fun tabIndexLoop :: "int \<Rightarrow> string list \<Rightarrow> int \<Rightarrow> int \<Rightarrow> int" where
  "tabIndexLoop x [] i pos = -1"
| "tabIndexLoop x (tab # rest) i pos =
     (let tabWidth = int (length tab) + 8
      in if x \<ge> pos \<and> x < pos + tabWidth then i
         else tabIndexLoop x rest (i + 1) (pos + tabWidth))"

definition getTabIndexAtX :: "TaskModel \<Rightarrow> int \<Rightarrow> panic + int" where
  "getTabIndexAtX m x =
     (if length (tabs m) \<le> 1 then Inr (-1)
      else if tabOffset m < 0 then Inl (IndexOutOfRange (tabOffset m) (length (tabs m)))
      else Inr (tabIndexLoop x (drop (nat (tabOffset m)) (tabs m)) (tabOffset m)
                  (2 + headerIndent m)))"

definition markForExecution :: "TaskModel \<Rightarrow> panic + TaskModel \<times> Cmd" where
  "markForExecution m =
     (if length (filteredTasks m) = 0 then Inr (m, NoCmd)
      else if selected m < 0 \<or> selected m \<ge> int (length (filteredTasks m))
      then Inl (IndexOutOfRange (selected m) (length (filteredTasks m)))
      else (let task = filteredTasks m ! nat (selected m)
            in Inr (m\<lparr>lastCommand := Name task, quitAfterSelect := True\<rparr>, Quit)))"

definition toggleSortMode :: "golib \<Rightarrow> TaskModel \<Rightarrow> TaskModel" where
  "toggleSortMode L m0 =
     (let selectedTaskName =
            (if length (filteredTasks m0) > 0 \<and> selected m0 \<ge> 0
                \<and> selected m0 < int (length (filteredTasks m0))
             then Name (filteredTasks m0 ! nat (selected m0)) else []);
          m = m0\<lparr>sortMode := (if sortMode m0 = ''file'' then ''alpha'' else ''file'')\<rparr>;
          m = buildTabs m;
          m = updateFilter L m;
          i = findIndex (\<lambda>t. Name t = selectedTaskName) (filteredTasks m);
          m = (if selectedTaskName \<noteq> [] \<and> i \<ge> 0 then m\<lparr>selected := i\<rparr> else m)
      in ensureSelectionVisible L m)"

text \<open>The navigation keys, handled alike in search mode and outside it: \<open>None\<close> for
  any other key.\<close>

definition navigate :: "golib \<Rightarrow> string \<Rightarrow> TaskModel \<Rightarrow> TaskModel option" where
  "navigate L s m =
     (if s = ''up'' \<or> s = ''k'' then
        Some (if selected m > 0 then ensureSelectionVisible L (m\<lparr>selected := selected m - 1\<rparr>)
              else m)
      else if s = ''down'' \<or> s = ''j'' then
        Some (if selected m < int (length (filteredTasks m)) - 1
              then ensureSelectionVisible L (m\<lparr>selected := selected m + 1\<rparr>) else m)
      else if s = ''pgup'' then
        Some (let (step, m1) = visibleListHeight L m
              in ensureSelectionVisible L (m1\<lparr>selected := max 0 (selected m1 - step)\<rparr>))
      else if s = ''pgdown'' then
        Some (let (step, m1) = visibleListHeight L m
              in ensureSelectionVisible L
                   (m1\<lparr>selected := min (int (length (filteredTasks m1)) - 1) (selected m1 + step)\<rparr>))
      else if s = ''home'' then Some (ensureSelectionVisible L (m\<lparr>selected := 0\<rparr>))
      else if s = ''end'' then
        Some (ensureSelectionVisible L (m\<lparr>selected := int (length (filteredTasks m)) - 1\<rparr>))
      else None)"

text \<open>The \<open>switch\<close> of \<open>handleKeys\<close> outside search mode.\<close>

definition browseKey :: "golib \<Rightarrow> int \<Rightarrow> string \<Rightarrow> TaskModel \<Rightarrow> panic + TaskModel \<times> Cmd" where
  "browseKey L now s m =
     (if s = ''ctrl+s'' then
        (let m1 = toggleSortMode L m
         in Inr (setStatus now (''Sorted by '' @ sortMode m1) m1, NoCmd))
      else if s = ''q'' \<or> s = ''ctrl+c'' then Inr (m, Quit)
      else if s = ''r'' \<or> s = ''ctrl+r'' then Inr (setStatus now ''Refreshing tasks...'' m, RefreshCmd)
      else
        (case navigate L s m of
           Some m1 \<Rightarrow> Inr (m1, NoCmd)
         | None \<Rightarrow>
             if s = ''enter'' then markForExecution m
             else if s = ''/'' then
               Inr (m\<lparr>searchMode := True, searchInput := SetValue [] (Focus (searchInput m)),
                      searchQuery := []\<rparr>, NoCmd)
             else if s = ''esc'' then
               (if searchQuery m \<noteq> [] then Inr (updateFilter L (m\<lparr>searchQuery := []\<rparr>), NoCmd)
                else Inr (m, Quit))
             else if s = ''tab'' \<or> s = ''right'' then
               Inr (if length (tabs m) > 1 then moveToNextTab L m else m, NoCmd)
             else if s = ''shift+tab'' \<or> s = ''left'' then
               Inr (if length (tabs m) > 1 then moveToPrevTab L m else m, NoCmd)
             else Inr (m, NoCmd)))"

text \<open>The guard of the type-to-search trigger.\<close>

definition autoSearchRune :: "golib \<Rightarrow> rune \<Rightarrow> bool" where
  "autoSearchRune L r =
     (r \<noteq> 113 \<and> r \<noteq> 106 \<and> r \<noteq> 107 \<and> r \<noteq> 114 \<and> IsPrint L r \<and> \<not> IsSpace L r)"

definition handleKeys :: "golib \<Rightarrow> int \<Rightarrow> KeyMsg \<Rightarrow> TaskModel \<Rightarrow> panic + TaskModel \<times> Cmd" where
  "handleKeys L now msg m =
     (if searchMode m then
        (case navigate L (KeyString msg) m of
           Some m1 \<Rightarrow> Inr (m1, NoCmd)
         | None \<Rightarrow>
             (let (ti, cmd) = inputUpdate L msg (searchInput m);
                  m1 = m\<lparr>searchInput := ti\<rparr>;
                  m1 = m1\<lparr>searchQuery := Value (searchInput m1)\<rparr>;
                  m1 = updateFilter L m1;
                  m1 = (if KeyString msg = ''esc''
                        then updateFilter L
                               (m1\<lparr>searchMode := False, searchInput := Reset (searchInput m1),
                                   searchQuery := []\<rparr>)
                        else m1)
              in if KeyString msg = ''enter'' then
                   (let m2 = m1\<lparr>searchMode := False\<rparr>
                    in if length (filteredTasks m2) > 0 then markForExecution m2
                       else Inr (m2, cmd))
                 else Inr (m1, cmd)))
      else if Type msg = KeyRunes \<and> length (Runes msg) = 1 \<and> autoSearchRune L (Runes msg ! 0)
      then
        (let r = Runes msg ! 0;
             m1 = m\<lparr>searchMode := True\<rparr>;
             m1 = m1\<lparr>searchInput := SetValue (utf8 r) (Focus (searchInput m1))\<rparr>;
             m1 = m1\<lparr>searchQuery := Value (searchInput m1)\<rparr>
         in Inr (updateFilter L m1, NoCmd))
      else browseKey L now (KeyString msg) m)"

definition handleMouse :: "golib \<Rightarrow> MouseMsg \<Rightarrow> TaskModel \<Rightarrow> panic + TaskModel \<times> Cmd" where
  "handleMouse L msg m =
     (case Event msg of
        MouseLeft \<Rightarrow>
          if Y msg = 2 \<and> length (tabs m) > 1 then
            (case getTabIndexAtX m (X msg) of
               Inl p \<Rightarrow> Inl p
             | Inr tabIndex \<Rightarrow>
                 if tabIndex \<ge> 0 \<and> tabIndex < int (length (tabs m))
                 then Inr (updateFilter L (m\<lparr>activeTab := tabs m ! nat tabIndex\<rparr>), NoCmd)
                 else Inr (m, NoCmd))
          else if Y msg \<ge> 4 then
            (let adjustY = Y msg - 4;
                 adjustY = (if searchMode m \<or> searchQuery m \<noteq> [] then adjustY - 1 else adjustY)
             in if adjustY \<ge> 0 \<and> adjustY < int (length (filteredTasks m))
                then Inr (m\<lparr>selected := adjustY\<rparr>, NoCmd) else Inr (m, NoCmd))
          else Inr (m, NoCmd)
      | MouseLeftMotion \<Rightarrow>
          if Y msg \<ge> 4 then
            (let adjustY = Y msg - 4;
                 adjustY = (if searchMode m \<or> searchQuery m \<noteq> [] then adjustY - 1 else adjustY)
             in if adjustY \<ge> 0 \<and> adjustY < int (length (filteredTasks m)) \<and> adjustY = selected m
                then markForExecution m else Inr (m, NoCmd))
          else Inr (m, NoCmd)
      | MouseOtherEvent \<Rightarrow> Inr (m, NoCmd))"

text \<open>\<open>Update\<close>, given the time \<open>now\<close> at which the message is handled.\<close>

definition Update :: "golib \<Rightarrow> int \<Rightarrow> Msg \<Rightarrow> TaskModel \<Rightarrow> panic + TaskModel \<times> Cmd" where
  "Update L now msg m =
     (case msg of
        WindowSize w h \<Rightarrow> Inr (ensureSelectionVisible L (m\<lparr>width := w, height := h\<rparr>), NoCmd)
      | Key k \<Rightarrow> handleKeys L now k m
      | Mouse ms \<Rightarrow> if \<not> mouseEnabled m then Inr (m, NoCmd) else handleMouse L ms m
      | Tick \<Rightarrow> Inr (m, TickCmd)
      | Refresh ts e \<Rightarrow>
          (case e of
             Some er \<Rightarrow> Inr (setStatus now (''Refresh failed: '' @ er) m, NoCmd)
           | None \<Rightarrow>
               (let m1 = m\<lparr>tasks := ts\<rparr>;
                    m1 = buildTabs m1;
                    m1 = updateFilter L m1
                in Inr (setStatus now (''Refreshed - '' @ fmt_d (length ts) @ '' tasks found'') m1,
                        NoCmd)))
      | OtherMsg \<Rightarrow> Inr (m, NoCmd))"

definition NewTaskModel :: "golib \<Rightarrow> int \<Rightarrow> Task list \<Rightarrow> bool \<Rightarrow> string \<Rightarrow> TaskModel" where
  "NewTaskModel L now ts mouse project =
     (let sorted_ts = sort_key Line ts;
          m = \<lparr>tasks = sorted_ts, originalTasks = sorted_ts, filteredTasks = sorted_ts,
               selected = 0, searchMode = False, searchQuery = [],
               searchInput = \<lparr>Value = [], focused = False\<rparr>,
               mouseEnabled = mouse, width = 0, height = 0, lastCommand = [],
               statusMessage = [], statusTimeout = now, projectName = project,
               projectRoot = [], errorMessage = [], quitAfterSelect = False,
               tabOffset = 0, headerIndent = 0, listOffset = 0, itemHeight = 0,
               tabs = [], activeTab = [], tabTasks = Map.empty, sortMode = ''file''\<rparr>
      in updateFilter L (buildTabs m))"

text \<open>The event loop: messages are handled one at a time, each at its own time, until a
  handler returns \<open>Quit\<close> or panics.\<close>

fun run :: "golib \<Rightarrow> (int \<times> Msg) list \<Rightarrow> TaskModel \<Rightarrow> panic + TaskModel" where
  "run L [] m = Inr m"
| "run L ((now, msg) # rest) m =
     (case Update L now msg m of
        Inl p \<Rightarrow> Inl p
      | Inr (m1, c) \<Rightarrow> if c = Quit then Inr m1 else run L rest m1)"

section \<open>A concrete library\<close>

text \<open>
  The library as Go computes it on ASCII text and Latin-1 runes, with a text input that
  appends the typed runes and a command box that draws one border line above and one
  below its content. The examples below are evaluated with it.
\<close>

definition asciiLower :: "char \<Rightarrow> char" where
  "asciiLower c =
     (if CHR ''A'' \<le> c \<and> c \<le> CHR ''Z'' then char_of (of_char c + (32::nat)) else c)"

definition asciiUpper :: "char \<Rightarrow> char" where
  "asciiUpper c =
     (if CHR ''a'' \<le> c \<and> c \<le> CHR ''z'' then char_of (of_char c - (32::nat)) else c)"

definition asciiSpace :: "char \<Rightarrow> bool" where
  "asciiSpace c = (c \<in> {CHR 0x09, CHR 0x0A, CHR 0x0B, CHR 0x0C, CHR 0x0D, CHR '' ''})"

definition typeKey :: "KeyMsg \<Rightarrow> textinput \<Rightarrow> textinput \<times> Cmd" where
  "typeKey k ti =
     (if focused ti \<and> Type k = KeyRunes \<and> \<not> Alt k
      then (ti\<lparr>Value := Value ti @ concat (map utf8 (Runes k))\<rparr>, NoCmd)
      else if focused ti \<and> KeyString k = ''backspace''
      then (ti\<lparr>Value := butlast (Value ti)\<rparr>, NoCmd)
      else (ti, NoCmd))"

definition asciiLib :: golib where
  "asciiLib =
     \<lparr>ToLower = map asciiLower,
      ToUpper = map asciiUpper,
      TrimSpace = (\<lambda>s. rev (dropWhile asciiSpace (rev (dropWhile asciiSpace s)))),
      IsPrint = (\<lambda>r. (32 \<le> r \<and> r \<le> 126) \<or> (161 \<le> r \<and> r \<le> 255 \<and> r \<noteq> 173)),
      IsSpace = (\<lambda>r. r \<in> {9, 10, 11, 12, 13, 32, 133, 160}),
      inputUpdate = typeKey,
      appFrameW = 4,
      renderCommandBox = (\<lambda>w s. ''+'' @ [CHR 0x0A] @ s @ [CHR 0x0A] @ ''+'')\<rparr>"

definition mkTask :: "string \<Rightarrow> string \<Rightarrow> string list \<Rightarrow> int \<Rightarrow> Task" where
  "mkTask n d cs l = \<lparr>Name = n, Desc = d, Cmds = cs, Line = l\<rparr>"

definition runeKey :: "rune \<Rightarrow> Msg" where
  "runeKey r = Key \<lparr>Type = KeyRunes, Runes = [r], Alt = False\<rparr>"

definition namedKey :: "string \<Rightarrow> Msg" where
  "namedKey n = Key \<lparr>Type = KeyNamed n, Runes = [], Alt = False\<rparr>"

text \<open>Five environments of a discovery pass: no \<open>task\<close> binary; a JSON listing; an
  empty JSON listing and a plain listing; only the Taskfile; nothing usable.\<close>

definition exampleTaskfile :: taskfile where
  "exampleTaskfile =
     Document [(''version'', YString ''3''),
               (''tasks'', YMap [(''build'', YMap [(''cmds'', YList [YString ''make'', YOther])]),
                                 (''skipped'', YNull),
                                 (''extra'', YMap [(''desc'', YString ''Extra''),
                                                   (''cmd'', YString ''ls'')])])]"

definition worldNoBinary :: world where
  "worldNoBinary =
     \<lparr>lookPath = Some ''executable file not found in $PATH'', listJSONOut = Inr [],
      listPlainOut = Inr [], taskfileOut = exampleTaskfile\<rparr>"

definition worldJSON :: world where
  "worldJSON =
     \<lparr>lookPath = None,
      listJSONOut = Inr [\<lparr>json_name = ''build'', json_desc = [], json_line = 4\<rparr>],
      listPlainOut = Inr ''* other: never read'', taskfileOut = exampleTaskfile\<rparr>"

definition worldPlain :: world where
  "worldPlain =
     \<lparr>lookPath = None, listJSONOut = Inr [],
      listPlainOut = Inr (''task: Available tasks for this project:'' @ [CHR 0x0A]
                          @ ''* build:   Build it'' @ [CHR 0x0A] @ ''* test-unit:'' @ [CHR 0x0A]),
      taskfileOut = exampleTaskfile\<rparr>"

definition worldYAML :: world where
  "worldYAML =
     \<lparr>lookPath = None, listJSONOut = Inl ''exit status 1'', listPlainOut = Inr ''no tasks'',
      taskfileOut = exampleTaskfile\<rparr>"

definition worldNothing :: world where
  "worldNothing =
     \<lparr>lookPath = None, listJSONOut = Inr [], listPlainOut = Inl ''exit status 1'',
      taskfileOut = UnmarshalError ''yaml: line 2: mapping values are not allowed''\<rparr>"

text \<open>Browser models at start-up, used in the examples.\<close>

definition exampleTasks :: "Task list" where
  "exampleTasks =
     [mkTask ''db-migrate'' [] [''migrate''] 1, mkTask ''build'' ''Build the project'' [] 2,
      mkTask ''db-seed'' [] [''seed''] 3]"

definition exampleModel :: TaskModel where
  "exampleModel = NewTaskModel asciiLib 0 exampleTasks True ''proj''"

definition oneTaskModel :: TaskModel where
  "oneTaskModel = NewTaskModel asciiLib 0 [mkTask ''build'' [] [] 1] True ''proj''"

definition fiveTaskModel :: TaskModel where
  "fiveTaskModel =
     NewTaskModel asciiLib 0
       [mkTask ''a'' [] [] 1, mkTask ''b'' [] [] 2, mkTask ''c'' [] [] 3, mkTask ''d'' [] [] 4,
        mkTask ''e'' [] [] 5] True ''proj''"

definition searchExample :: TaskModel where
  "searchExample =
     NewTaskModel asciiLib 0
       [mkTask ''test-pass'' [] [] 1, mkTask ''lint'' ''lints code'' [] 2] True ''proj''"

section \<open>Notions used in the statements\<close>

text \<open>What enrichment may do to the task at one position, given the parsed tasks \<open>P\<close>:
  name and line stay, and a field either stays or was empty and now holds the non-empty
  field of a parsed task of the same name.\<close>

definition enriched :: "Task set \<Rightarrow> Task \<Rightarrow> Task \<Rightarrow> bool" where
  "enriched P t t' =
     (Name t' = Name t \<and> Line t' = Line t
      \<and> (Cmds t' = Cmds t
           \<or> Cmds t = [] \<and> (\<exists>p\<in>P. Name p = Name t \<and> Cmds p \<noteq> [] \<and> Cmds t' = Cmds p))
      \<and> (Desc t' = Desc t
           \<or> Desc t = [] \<and> (\<exists>p\<in>P. Name p = Name t \<and> Desc p \<noteq> [] \<and> Desc t' = Desc p)))"

text \<open>The labels of a sequence in the order of their first appearance, and that order
  with the default label moved to the front.\<close>

primrec firstSeen :: "'a list \<Rightarrow> 'a list" where
  "firstSeen [] = []"
| "firstSeen (x # xs) = x # removeAll x (firstSeen xs)"

definition mainFirst :: "string list \<Rightarrow> string list" where
  "mainFirst labels =
     (if ''main'' \<in> set labels then ''main'' # removeAll ''main'' labels else labels)"

text \<open>All group members, groups in tab order and members in member order.\<close>

definition flattenTabs :: "TaskModel \<Rightarrow> Task list" where
  "flattenTabs m = concat (map (\<lambda>p. case tabTasks m p of None \<Rightarrow> [] | Some ts \<Rightarrow> ts) (tabs m))"

section \<open>Properties of task discovery\<close>

lemma enrichOne_Name: "Name (enrichOne p t) = Name t"
  by (simp add: enrichOne_def Let_def)

lemma enrichOne_Line: "Line (enrichOne p t) = Line t"
  by (simp add: enrichOne_def Let_def)

lemma enrichOne_Cmds: "Cmds (enrichOne p t) = (if Cmds t = [] \<and> Cmds p \<noteq> [] then Cmds p else Cmds t)"
  by (simp add: enrichOne_def Let_def)

lemma enrichOne_Desc: "Desc (enrichOne p t) = (if Desc t = [] \<and> Desc p \<noteq> [] then Desc p else Desc t)"
  by (simp add: enrichOne_def Let_def)

lemma buildIdx_sound:
  "buildIdx ts k idx n = Some i \<Longrightarrow>
     idx n = Some i \<or> (k \<le> i \<and> i < k + length ts \<and> Name (ts ! (i - k)) = n)"
proof (induction ts arbitrary: k idx)
  case Nil
  then show ?case by simp
next
  case (Cons t ts)
  from Cons.prems have "buildIdx ts (Suc k) (idx(Name t \<mapsto> k)) n = Some i" by simp
  from Cons.IH[OF this]
  show ?case
    by (auto split: if_splits simp: nth_Cons')
qed

lemma enriched_refl: "enriched P t t"
  by (simp add: enriched_def)

lemma enriched_mono: "enriched P t t' \<Longrightarrow> P \<subseteq> Q \<Longrightarrow> enriched Q t t'"
  unfolding enriched_def by blast

lemma enriched_step:
  assumes "enriched P t t'" and "Name p = Name t"
  shows "enriched (insert p P) t (enrichOne p t')"
  using assms unfolding enriched_def enrichOne_Name enrichOne_Line enrichOne_Cmds enrichOne_Desc
  by auto

lemma enrichLoop_enriched:
  assumes idx: "\<And>n i. idx n = Some i \<Longrightarrow> i < length ts \<and> Name (ts ! i) = n"
    and "length cur = length ts"
    and "\<And>i. i < length ts \<Longrightarrow> enriched P (ts ! i) (cur ! i)"
  shows "length (enrichLoop idx parsed cur) = length ts \<and>
         (\<forall>i<length ts. enriched (P \<union> set parsed) (ts ! i) (enrichLoop idx parsed cur ! i))"
  using assms(2,3)
proof (induction parsed arbitrary: cur P)
  case Nil
  then show ?case by simp
next
  case (Cons p parsed)
  show ?case
  proof (cases "idx (Name p)")
    case None
    have "\<And>i. i < length ts \<Longrightarrow> enriched (insert p P) (ts ! i) (cur ! i)"
      using Cons.prems(2) enriched_mono by blast
    from Cons.IH[OF Cons.prems(1) this] None show ?thesis by simp
  next
    case (Some j)
    with idx have j: "j < length ts" "Name (ts ! j) = Name p" by auto
    let ?cur = "cur[j := enrichOne p (cur ! j)]"
    have len: "length ?cur = length ts" using Cons.prems(1) by simp
    have "\<And>i. i < length ts \<Longrightarrow> enriched (insert p P) (ts ! i) (?cur ! i)"
    proof -
      fix i assume i: "i < length ts"
      show "enriched (insert p P) (ts ! i) (?cur ! i)"
      proof (cases "i = j")
        case True
        then show ?thesis
          using enriched_step[OF Cons.prems(2)[OF i]] j Cons.prems(1) i by simp
      next
        case False
        then show ?thesis
          using Cons.prems(2)[OF i] enriched_mono[of P "ts ! i" "cur ! i" "insert p P"] by auto
      qed
    qed
    from Cons.IH[OF len this] Some show ?thesis by simp
  qed
qed

lemma enrichTaskCmds_enriched:
  "length (enrichTaskCmds L f ts) = length ts \<and>
   (\<forall>i<length ts. enriched (set (tasksOf (parseTaskfileYAML L f))) (ts ! i) (enrichTaskCmds L f ts ! i))"
proof (cases "parseTaskfileYAML L f")
  case (Inl e)
  then show ?thesis by (simp add: enrichTaskCmds_def enriched_refl)
next
  case (Inr parsed)
  have idx: "\<And>n i. buildIdx ts 0 Map.empty n = Some i \<Longrightarrow> i < length ts \<and> Name (ts ! i) = n"
    using buildIdx_sound[of ts 0 Map.empty] by fastforce
  from enrichLoop_enriched[of "buildIdx ts 0 Map.empty" ts ts "{}" parsed, OF idx]
  show ?thesis using Inr by (simp add: enrichTaskCmds_def tasksOf_def enriched_refl)
qed

lemma enrichTaskCmds_length: "length (enrichTaskCmds L f ts) = length ts"
  using enrichTaskCmds_enriched by blast

lemma enrichTaskCmds_Name: "map Name (enrichTaskCmds L f ts) = map Name ts"
proof (rule nth_equalityI)
  show "length (map Name (enrichTaskCmds L f ts)) = length (map Name ts)"
    by (simp add: enrichTaskCmds_length)
next
  fix i assume "i < length (map Name (enrichTaskCmds L f ts))"
  then have i: "i < length ts" by (simp add: enrichTaskCmds_length)
  with enrichTaskCmds_enriched[of L f ts] have "enriched (set (tasksOf (parseTaskfileYAML L f))) (ts ! i) (enrichTaskCmds L f ts ! i)"
    by blast
  then show "map Name (enrichTaskCmds L f ts) ! i = map Name ts ! i"
    using i by (simp add: enriched_def enrichTaskCmds_length)
qed

lemma enrichTaskCmds_Line: "map Line (enrichTaskCmds L f ts) = map Line ts"
proof (rule nth_equalityI)
  show "length (map Line (enrichTaskCmds L f ts)) = length (map Line ts)"
    by (simp add: enrichTaskCmds_length)
next
  fix i assume "i < length (map Line (enrichTaskCmds L f ts))"
  then have i: "i < length ts" by (simp add: enrichTaskCmds_length)
  with enrichTaskCmds_enriched[of L f ts] have "enriched (set (tasksOf (parseTaskfileYAML L f))) (ts ! i) (enrichTaskCmds L f ts ! i)"
    by blast
  then show "map Line (enrichTaskCmds L f ts) ! i = map Line ts ! i"
    using i by (simp add: enriched_def enrichTaskCmds_length)
qed

text \<open>
  C7. Enrichment keeps the number, the names and the order of the listed tasks (it adds
  none); it leaves every non-empty command list and every non-empty description as it
  is; and a command list or description that did change was taken from a directly parsed
  task of the same name.
\<close>

theorem enrichTaskCmds_frame:
  "length (enrichTaskCmds L f ts) = length ts \<and>
   (\<forall>i<length ts.
      Name (enrichTaskCmds L f ts ! i) = Name (ts ! i) \<and>
      (Cmds (ts ! i) \<noteq> [] \<longrightarrow> Cmds (enrichTaskCmds L f ts ! i) = Cmds (ts ! i)) \<and>
      (Desc (ts ! i) \<noteq> [] \<longrightarrow> Desc (enrichTaskCmds L f ts ! i) = Desc (ts ! i)) \<and>
      (Cmds (enrichTaskCmds L f ts ! i) \<noteq> Cmds (ts ! i) \<longrightarrow>
         (\<exists>p\<in>set (tasksOf (parseTaskfileYAML L f)).
            Name p = Name (ts ! i) \<and> Cmds (enrichTaskCmds L f ts ! i) = Cmds p)) \<and>
      (Desc (enrichTaskCmds L f ts ! i) \<noteq> Desc (ts ! i) \<longrightarrow>
         (\<exists>p\<in>set (tasksOf (parseTaskfileYAML L f)).
            Name p = Name (ts ! i) \<and> Desc (enrichTaskCmds L f ts ! i) = Desc p)))"
  using enrichTaskCmds_enriched[of L f ts] unfolding enriched_def by blast

theorem enrichTaskCmds_frame_witness:
  "length (enrichTaskCmds asciiLib
      (Document [(''tasks'', YMap [(''build'', YMap [(''desc'', YString ''Compile''), (''cmds'', YList [YString ''go build ./...''])])])])
      [mkTask ''build'' ''Build the project'' [] 3, mkTask ''test'' [] [] 7]) = 2
   \<and> Desc (mkTask ''build'' ''Build the project'' [] 3) \<noteq> []
   \<and> enrichTaskCmds asciiLib
      (Document [(''tasks'', YMap [(''build'', YMap [(''desc'', YString ''Compile''), (''cmds'', YList [YString ''go build ./...''])])])])
      [mkTask ''build'' ''Build the project'' [] 3, mkTask ''test'' [] [] 7]
     = [mkTask ''build'' ''Build the project'' [''go build ./...''] 3, mkTask ''test'' [] [] 7]"
proof -
  let ?f = "Document [(''tasks'', YMap [(''build'', YMap [(''desc'', YString ''Compile''), (''cmds'', YList [YString ''go build ./...''])])])]"
  let ?ts = "[mkTask ''build'' ''Build the project'' [] 3, mkTask ''test'' [] [] 7]"
  have e: "enrichTaskCmds asciiLib ?f ?ts
     = [mkTask ''build'' ''Build the project'' [''go build ./...''] 3, mkTask ''test'' [] [] 7]"
    by code_simp
  have "length (enrichTaskCmds asciiLib ?f ?ts) = length ?ts"
    using enrichTaskCmds_frame[of asciiLib ?f ?ts] by blast
  then show ?thesis using e by (simp add: mkTask_def)
qed

lemma usable_iff: "(errOf r = None \<and> tasksOf r \<noteq> []) = (tasksOf r \<noteq> [])"
  by (cases r) (simp_all add: errOf_def tasksOf_def)

text \<open>
  C4. Discovery follows a strict priority. Without the \<open>task\<close> binary it fails after the
  path lookup alone. A JSON listing of one or more tasks is the result (enriched from the
  Taskfile, names unchanged) and the plain listing is not run. A listing that fails or is
  empty passes the turn to the next strategy: the plain listing, then the YAML parse.
  When none yields a task, the error carries the outcome of all three.
\<close>

theorem DiscoverTasks_priority:
  "(lookPath w = Some e \<longrightarrow>
      DiscoverTasks L w = (Inl (''task binary not found in PATH: '' @ e), [CallLookPath]))
   \<and> (lookPath w = None \<and> tasksOf (listViaJSON (listJSONOut w)) \<noteq> [] \<longrightarrow>
      DiscoverTasks L w =
        (Inr (enrichTaskCmds L (taskfileOut w) (tasksOf (listViaJSON (listJSONOut w)))),
         [CallLookPath, CallListJSON, CallParseYAML])
      \<and> map Name (tasksOf (fst (DiscoverTasks L w)))
          = map Name (tasksOf (listViaJSON (listJSONOut w))))
   \<and> (lookPath w = None \<and> tasksOf (listViaJSON (listJSONOut w)) = []
        \<and> tasksOf (listViaPlain L (listPlainOut w)) \<noteq> [] \<longrightarrow>
      DiscoverTasks L w =
        (Inr (enrichTaskCmds L (taskfileOut w) (tasksOf (listViaPlain L (listPlainOut w)))),
         [CallLookPath, CallListJSON, CallListPlain, CallParseYAML]))
   \<and> (lookPath w = None \<and> tasksOf (listViaJSON (listJSONOut w)) = []
        \<and> tasksOf (listViaPlain L (listPlainOut w)) = []
        \<and> tasksOf (parseTaskfileYAML L (taskfileOut w)) \<noteq> [] \<longrightarrow>
      DiscoverTasks L w =
        (Inr (tasksOf (parseTaskfileYAML L (taskfileOut w))),
         [CallLookPath, CallListJSON, CallListPlain, CallParseYAML]))
   \<and> (lookPath w = None \<and> tasksOf (listViaJSON (listJSONOut w)) = []
        \<and> tasksOf (listViaPlain L (listPlainOut w)) = []
        \<and> tasksOf (parseTaskfileYAML L (taskfileOut w)) = [] \<longrightarrow>
      DiscoverTasks L w =
        (Inl (''failed to discover tasks (json:'' @ fmt_v (errOf (listViaJSON (listJSONOut w)))
              @ '' plain:'' @ fmt_v (errOf (listViaPlain L (listPlainOut w)))
              @ '' yaml:'' @ fmt_v (errOf (parseTaskfileYAML L (taskfileOut w))) @ '')''),
         [CallLookPath, CallListJSON, CallListPlain, CallParseYAML]))"
proof -
  have a: "lookPath w = Some e \<Longrightarrow>
      DiscoverTasks L w = (Inl (''task binary not found in PATH: '' @ e), [CallLookPath])"
    by (simp add: DiscoverTasks_def)
  have b: "lookPath w = None \<Longrightarrow> tasksOf (listViaJSON (listJSONOut w)) \<noteq> [] \<Longrightarrow>
      DiscoverTasks L w =
        (Inr (enrichTaskCmds L (taskfileOut w) (tasksOf (listViaJSON (listJSONOut w)))),
         [CallLookPath, CallListJSON, CallParseYAML])"
    by (simp add: DiscoverTasks_def Let_def usable_iff)
  have b': "lookPath w = None \<Longrightarrow> tasksOf (listViaJSON (listJSONOut w)) \<noteq> [] \<Longrightarrow>
      map Name (tasksOf (fst (DiscoverTasks L w))) = map Name (tasksOf (listViaJSON (listJSONOut w)))"
    using b by (simp add: tasksOf_def enrichTaskCmds_Name)
  have c: "lookPath w = None \<Longrightarrow> tasksOf (listViaJSON (listJSONOut w)) = [] \<Longrightarrow>
        tasksOf (listViaPlain L (listPlainOut w)) \<noteq> [] \<Longrightarrow>
      DiscoverTasks L w =
        (Inr (enrichTaskCmds L (taskfileOut w) (tasksOf (listViaPlain L (listPlainOut w)))),
         [CallLookPath, CallListJSON, CallListPlain, CallParseYAML])"
    by (simp add: DiscoverTasks_def Let_def usable_iff)
  have d: "lookPath w = None \<Longrightarrow> tasksOf (listViaJSON (listJSONOut w)) = [] \<Longrightarrow>
        tasksOf (listViaPlain L (listPlainOut w)) = [] \<Longrightarrow>
        tasksOf (parseTaskfileYAML L (taskfileOut w)) \<noteq> [] \<Longrightarrow>
      DiscoverTasks L w =
        (Inr (tasksOf (parseTaskfileYAML L (taskfileOut w))),
         [CallLookPath, CallListJSON, CallListPlain, CallParseYAML])"
    by (simp add: DiscoverTasks_def Let_def usable_iff)
  have e: "lookPath w = None \<Longrightarrow> tasksOf (listViaJSON (listJSONOut w)) = [] \<Longrightarrow>
        tasksOf (listViaPlain L (listPlainOut w)) = [] \<Longrightarrow>
        tasksOf (parseTaskfileYAML L (taskfileOut w)) = [] \<Longrightarrow>
      DiscoverTasks L w =
        (Inl (''failed to discover tasks (json:'' @ fmt_v (errOf (listViaJSON (listJSONOut w)))
              @ '' plain:'' @ fmt_v (errOf (listViaPlain L (listPlainOut w)))
              @ '' yaml:'' @ fmt_v (errOf (parseTaskfileYAML L (taskfileOut w))) @ '')''),
         [CallLookPath, CallListJSON, CallListPlain, CallParseYAML])"
    by (simp add: DiscoverTasks_def Let_def usable_iff)
  from a b b' c d e show ?thesis by blast
qed

theorem DiscoverTasks_priority_witness:
  "lookPath worldNoBinary = Some ''executable file not found in $PATH''
   \<and> DiscoverTasks asciiLib worldNoBinary =
       (Inl ''task binary not found in PATH: executable file not found in $PATH'', [CallLookPath])
   \<and> tasksOf (listViaJSON (listJSONOut worldJSON)) \<noteq> []
   \<and> DiscoverTasks asciiLib worldJSON =
       (Inr [mkTask ''build'' [] [''make''] 4], [CallLookPath, CallListJSON, CallParseYAML])
   \<and> tasksOf (listViaJSON (listJSONOut worldPlain)) = []
   \<and> DiscoverTasks asciiLib worldPlain =
       (Inr [mkTask ''build'' ''Build it'' [''make''] 0, mkTask ''test-unit'' [] [] 0],
        [CallLookPath, CallListJSON, CallListPlain, CallParseYAML])
   \<and> tasksOf (listViaPlain asciiLib (listPlainOut worldYAML)) = []
   \<and> DiscoverTasks asciiLib worldYAML =
       (Inr [mkTask ''build'' [] [''make''] 0, mkTask ''extra'' ''Extra'' [''ls''] 0],
        [CallLookPath, CallListJSON, CallListPlain, CallParseYAML])
   \<and> tasksOf (parseTaskfileYAML asciiLib (taskfileOut worldNothing)) = []
   \<and> DiscoverTasks asciiLib worldNothing =
       (Inl (''failed to discover tasks (json:<nil> plain:exit status 1 ''
             @ ''yaml:yaml: line 2: mapping values are not allowed)''),
        [CallLookPath, CallListJSON, CallListPlain, CallParseYAML])"
proof -
  have h1: "lookPath worldNoBinary = Some ''executable file not found in $PATH''"
    by (simp add: worldNoBinary_def)
  have r1: "DiscoverTasks asciiLib worldNoBinary =
      (Inl (''task binary not found in PATH: '' @ ''executable file not found in $PATH''),
       [CallLookPath])"
    using DiscoverTasks_priority[of worldNoBinary "''executable file not found in $PATH''" asciiLib] h1
    by blast
  have h2: "lookPath worldJSON = None" "tasksOf (listViaJSON (listJSONOut worldJSON)) \<noteq> []"
    by code_simp+
  have r2: "DiscoverTasks asciiLib worldJSON =
      (Inr (enrichTaskCmds asciiLib (taskfileOut worldJSON)
              (tasksOf (listViaJSON (listJSONOut worldJSON)))),
       [CallLookPath, CallListJSON, CallParseYAML])"
    using DiscoverTasks_priority[of worldJSON _ asciiLib] h2 by blast
  have v2: "enrichTaskCmds asciiLib (taskfileOut worldJSON)
              (tasksOf (listViaJSON (listJSONOut worldJSON))) = [mkTask ''build'' [] [''make''] 4]"
    by code_simp
  have h3: "lookPath worldPlain = None" "tasksOf (listViaJSON (listJSONOut worldPlain)) = []"
    "tasksOf (listViaPlain asciiLib (listPlainOut worldPlain)) \<noteq> []"
    by code_simp+
  have r3: "DiscoverTasks asciiLib worldPlain =
      (Inr (enrichTaskCmds asciiLib (taskfileOut worldPlain)
              (tasksOf (listViaPlain asciiLib (listPlainOut worldPlain)))),
       [CallLookPath, CallListJSON, CallListPlain, CallParseYAML])"
    using DiscoverTasks_priority[of worldPlain _ asciiLib] h3 by blast
  have v3: "enrichTaskCmds asciiLib (taskfileOut worldPlain)
              (tasksOf (listViaPlain asciiLib (listPlainOut worldPlain)))
            = [mkTask ''build'' ''Build it'' [''make''] 0, mkTask ''test-unit'' [] [] 0]"
    by code_simp
  have h4: "lookPath worldYAML = None" "tasksOf (listViaJSON (listJSONOut worldYAML)) = []"
    "tasksOf (listViaPlain asciiLib (listPlainOut worldYAML)) = []"
    "tasksOf (parseTaskfileYAML asciiLib (taskfileOut worldYAML)) \<noteq> []"
    by code_simp+
  have r4: "DiscoverTasks asciiLib worldYAML =
      (Inr (tasksOf (parseTaskfileYAML asciiLib (taskfileOut worldYAML))),
       [CallLookPath, CallListJSON, CallListPlain, CallParseYAML])"
    using DiscoverTasks_priority[of worldYAML _ asciiLib] h4 by blast
  have v4: "tasksOf (parseTaskfileYAML asciiLib (taskfileOut worldYAML))
            = [mkTask ''build'' [] [''make''] 0, mkTask ''extra'' ''Extra'' [''ls''] 0]"
    by code_simp
  have h5: "lookPath worldNothing = None" "tasksOf (listViaJSON (listJSONOut worldNothing)) = []"
    "tasksOf (listViaPlain asciiLib (listPlainOut worldNothing)) = []"
    "tasksOf (parseTaskfileYAML asciiLib (taskfileOut worldNothing)) = []"
    by code_simp+
  have r5: "DiscoverTasks asciiLib worldNothing =
      (Inl (''failed to discover tasks (json:''
            @ fmt_v (errOf (listViaJSON (listJSONOut worldNothing)))
            @ '' plain:'' @ fmt_v (errOf (listViaPlain asciiLib (listPlainOut worldNothing)))
            @ '' yaml:'' @ fmt_v (errOf (parseTaskfileYAML asciiLib (taskfileOut worldNothing)))
            @ '')''),
       [CallLookPath, CallListJSON, CallListPlain, CallParseYAML])"
    using DiscoverTasks_priority[of worldNothing _ asciiLib] h5 by blast
  have v5: "fmt_v (errOf (listViaJSON (listJSONOut worldNothing))) = ''<nil>''"
    "fmt_v (errOf (listViaPlain asciiLib (listPlainOut worldNothing))) = ''exit status 1''"
    "fmt_v (errOf (parseTaskfileYAML asciiLib (taskfileOut worldNothing)))
       = ''yaml: line 2: mapping values are not allowed''"
    by code_simp+
  show ?thesis
    unfolding r1 r2 r3 r4 r5 v2 v3 v4 v5 using h1 h2 h3 h4 h5 by simp
qed

section \<open>Properties of the browser\<close>

lemma visibleListHeight_fields [simp]:
  "tasks (snd (visibleListHeight L m)) = tasks m"
  "originalTasks (snd (visibleListHeight L m)) = originalTasks m"
  "filteredTasks (snd (visibleListHeight L m)) = filteredTasks m"
  "selected (snd (visibleListHeight L m)) = selected m"
  "searchMode (snd (visibleListHeight L m)) = searchMode m"
  "searchQuery (snd (visibleListHeight L m)) = searchQuery m"
  "searchInput (snd (visibleListHeight L m)) = searchInput m"
  "mouseEnabled (snd (visibleListHeight L m)) = mouseEnabled m"
  "width (snd (visibleListHeight L m)) = width m"
  "height (snd (visibleListHeight L m)) = height m"
  "lastCommand (snd (visibleListHeight L m)) = lastCommand m"
  "statusMessage (snd (visibleListHeight L m)) = statusMessage m"
  "statusTimeout (snd (visibleListHeight L m)) = statusTimeout m"
  "projectName (snd (visibleListHeight L m)) = projectName m"
  "projectRoot (snd (visibleListHeight L m)) = projectRoot m"
  "errorMessage (snd (visibleListHeight L m)) = errorMessage m"
  "quitAfterSelect (snd (visibleListHeight L m)) = quitAfterSelect m"
  "tabOffset (snd (visibleListHeight L m)) = tabOffset m"
  "headerIndent (snd (visibleListHeight L m)) = headerIndent m"
  "listOffset (snd (visibleListHeight L m)) = listOffset m"
  "tabs (snd (visibleListHeight L m)) = tabs m"
  "activeTab (snd (visibleListHeight L m)) = activeTab m"
  "tabTasks (snd (visibleListHeight L m)) = tabTasks m"
  "sortMode (snd (visibleListHeight L m)) = sortMode m"
  by (simp_all add: visibleListHeight_def Let_def)

lemma ensureSelectionVisible_fields [simp]:
  "tasks (ensureSelectionVisible L m) = tasks m"
  "originalTasks (ensureSelectionVisible L m) = originalTasks m"
  "filteredTasks (ensureSelectionVisible L m) = filteredTasks m"
  "selected (ensureSelectionVisible L m) = selected m"
  "searchMode (ensureSelectionVisible L m) = searchMode m"
  "searchQuery (ensureSelectionVisible L m) = searchQuery m"
  "searchInput (ensureSelectionVisible L m) = searchInput m"
  "mouseEnabled (ensureSelectionVisible L m) = mouseEnabled m"
  "width (ensureSelectionVisible L m) = width m"
  "height (ensureSelectionVisible L m) = height m"
  "lastCommand (ensureSelectionVisible L m) = lastCommand m"
  "statusMessage (ensureSelectionVisible L m) = statusMessage m"
  "statusTimeout (ensureSelectionVisible L m) = statusTimeout m"
  "projectName (ensureSelectionVisible L m) = projectName m"
  "projectRoot (ensureSelectionVisible L m) = projectRoot m"
  "errorMessage (ensureSelectionVisible L m) = errorMessage m"
  "quitAfterSelect (ensureSelectionVisible L m) = quitAfterSelect m"
  "tabOffset (ensureSelectionVisible L m) = tabOffset m"
  "headerIndent (ensureSelectionVisible L m) = headerIndent m"
  "tabs (ensureSelectionVisible L m) = tabs m"
  "activeTab (ensureSelectionVisible L m) = activeTab m"
  "tabTasks (ensureSelectionVisible L m) = tabTasks m"
  "sortMode (ensureSelectionVisible L m) = sortMode m"
  by (simp_all add: ensureSelectionVisible_def split_def Let_def)

lemma updateFilter_filteredTasks:
  "filteredTasks (updateFilter L m) =
     (if searchQuery m \<noteq> [] then filter (\<lambda>t. Contains (hay L t) (ToLower L (searchQuery m))) (tasks m)
      else (case tabTasks m (activeTab m) of None \<Rightarrow> [] | Some ts \<Rightarrow> ts))"
  by (simp add: updateFilter_def Let_def)

lemma updateFilter_fields [simp]:
  "tasks (updateFilter L m) = tasks m"
  "originalTasks (updateFilter L m) = originalTasks m"
  "searchMode (updateFilter L m) = searchMode m"
  "searchQuery (updateFilter L m) = searchQuery m"
  "searchInput (updateFilter L m) = searchInput m"
  "mouseEnabled (updateFilter L m) = mouseEnabled m"
  "width (updateFilter L m) = width m"
  "height (updateFilter L m) = height m"
  "lastCommand (updateFilter L m) = lastCommand m"
  "statusMessage (updateFilter L m) = statusMessage m"
  "statusTimeout (updateFilter L m) = statusTimeout m"
  "projectName (updateFilter L m) = projectName m"
  "projectRoot (updateFilter L m) = projectRoot m"
  "errorMessage (updateFilter L m) = errorMessage m"
  "quitAfterSelect (updateFilter L m) = quitAfterSelect m"
  "tabOffset (updateFilter L m) = tabOffset m"
  "headerIndent (updateFilter L m) = headerIndent m"
  "tabs (updateFilter L m) = tabs m"
  "activeTab (updateFilter L m) = activeTab m"
  "tabTasks (updateFilter L m) = tabTasks m"
  "sortMode (updateFilter L m) = sortMode m"
  by (simp_all add: updateFilter_def Let_def)

lemma buildTabs_fields [simp]:
  "tasks (buildTabs m) = tasks m"
  "originalTasks (buildTabs m) = originalTasks m"
  "filteredTasks (buildTabs m) = filteredTasks m"
  "selected (buildTabs m) = selected m"
  "searchMode (buildTabs m) = searchMode m"
  "searchQuery (buildTabs m) = searchQuery m"
  "searchInput (buildTabs m) = searchInput m"
  "mouseEnabled (buildTabs m) = mouseEnabled m"
  "width (buildTabs m) = width m"
  "height (buildTabs m) = height m"
  "lastCommand (buildTabs m) = lastCommand m"
  "statusMessage (buildTabs m) = statusMessage m"
  "statusTimeout (buildTabs m) = statusTimeout m"
  "projectName (buildTabs m) = projectName m"
  "projectRoot (buildTabs m) = projectRoot m"
  "errorMessage (buildTabs m) = errorMessage m"
  "quitAfterSelect (buildTabs m) = quitAfterSelect m"
  "tabOffset (buildTabs m) = tabOffset m"
  "headerIndent (buildTabs m) = headerIndent m"
  "listOffset (buildTabs m) = listOffset m"
  "itemHeight (buildTabs m) = itemHeight m"
  "sortMode (buildTabs m) = sortMode m"
  by (simp_all add: buildTabs_def Let_def split_def)

lemma setStatus_fields [simp]:
  "tasks (setStatus now msg m) = tasks m"
  "originalTasks (setStatus now msg m) = originalTasks m"
  "filteredTasks (setStatus now msg m) = filteredTasks m"
  "selected (setStatus now msg m) = selected m"
  "searchMode (setStatus now msg m) = searchMode m"
  "searchQuery (setStatus now msg m) = searchQuery m"
  "searchInput (setStatus now msg m) = searchInput m"
  "mouseEnabled (setStatus now msg m) = mouseEnabled m"
  "width (setStatus now msg m) = width m"
  "height (setStatus now msg m) = height m"
  "lastCommand (setStatus now msg m) = lastCommand m"
  "projectName (setStatus now msg m) = projectName m"
  "projectRoot (setStatus now msg m) = projectRoot m"
  "errorMessage (setStatus now msg m) = errorMessage m"
  "quitAfterSelect (setStatus now msg m) = quitAfterSelect m"
  "tabOffset (setStatus now msg m) = tabOffset m"
  "headerIndent (setStatus now msg m) = headerIndent m"
  "listOffset (setStatus now msg m) = listOffset m"
  "itemHeight (setStatus now msg m) = itemHeight m"
  "tabs (setStatus now msg m) = tabs m"
  "activeTab (setStatus now msg m) = activeTab m"
  "tabTasks (setStatus now msg m) = tabTasks m"
  "sortMode (setStatus now msg m) = sortMode m"
  by (simp_all add: setStatus_def)

lemma sort_key_const:
  "(\<And>x. x \<in> set xs \<Longrightarrow> f x = c) \<Longrightarrow> sort_key f xs = xs"
proof (induction xs)
  case Nil
  then show ?case by simp
next
  case (Cons x xs)
  then have "sort_key f xs = xs" by simp
  moreover have "insort_key f x xs = x # xs"
    using Cons.prems by (cases xs) simp_all
  ultimately show ?case by simp
qed

lemma NewTaskModel_tasks:
  "tasks (NewTaskModel L now ts mouse project) = sort_key Line ts"
  "originalTasks (NewTaskModel L now ts mouse project) = sort_key Line ts"
  by (simp_all add: NewTaskModel_def Let_def)

lemma filter_absent: "p \<notin> f ` set ts \<Longrightarrow> [] = filter (\<lambda>t. f t = p) ts"
  by (induction ts) auto

lemma groupTasks_map:
  "fst (groupTasks ts (pm, pl, ps)) p =
     (if p \<in> (\<lambda>t. tabPrefix (Name t)) ` set ts
      then Some ((case pm p of None \<Rightarrow> [] | Some l \<Rightarrow> l) @ filter (\<lambda>t. tabPrefix (Name t) = p) ts)
      else pm p)"
proof (induction ts arbitrary: pm pl ps)
  case Nil
  then show ?case by simp
next
  case (Cons t ts)
  show ?case
    by (auto simp: Let_def Cons.IH intro: filter_absent)
qed

lemma groupTasks_list:
  assumes "\<And>p. ps p \<longleftrightarrow> p \<in> set pl" and "distinct pl"
  shows "distinct (fst (snd (groupTasks ts (pm, pl, ps))))
         \<and> set (fst (snd (groupTasks ts (pm, pl, ps)))) = set pl \<union> (\<lambda>t. tabPrefix (Name t)) ` set ts"
  using assms
proof (induction ts arbitrary: pm pl ps)
  case Nil
  then show ?case by simp
next
  case (Cons t ts)
  let ?p = "tabPrefix (Name t)"
  let ?pl = "if \<not> ps ?p then pl @ [?p] else pl"
  let ?ps = "if \<not> ps ?p then ps(?p := True) else ps"
  have 1: "\<And>p. ?ps p \<longleftrightarrow> p \<in> set ?pl" using Cons.prems(1) by auto
  have 2: "distinct ?pl" using Cons.prems by auto
  have 3: "set ?pl = insert ?p (set pl)" using Cons.prems(1) by auto
  from Cons.IH[of ?ps ?pl, OF 1 2] 3
  show ?case by (simp add: Let_def)
qed

lemma findIndex_nonneg:
  "0 \<le> findIndex P xs \<Longrightarrow> nat (findIndex P xs) < length xs \<and> P (xs ! nat (findIndex P xs))"
proof (induction xs)
  case Nil
  then show ?case by simp
next
  case (Cons x xs)
  show ?case
  proof (cases "P x")
    case True
    then show ?thesis by simp
  next
    case False
    with Cons.prems have nn: "0 \<le> findIndex P xs" by (simp add: Let_def split: if_splits)
    from Cons.IH[OF nn] False nn show ?thesis
      by (simp add: Let_def nat_add_distrib)
  qed
qed

lemma hoist_mset:
  "i < length xs \<Longrightarrow> mset (xs ! i # (take i xs @ drop (Suc i) xs)) = mset xs"
  by (metis Cons_nth_drop_Suc append_take_drop_id mset.simps(2) union_mset_add_mset_right mset_append)

text \<open>The tab names of \<open>buildTabs\<close>: the labels of the original tasks, each once.\<close>

lemma buildTabs_tabs:
  "mset (tabs (buildTabs m)) = mset (remdups (map (\<lambda>t. tabPrefix (Name t)) (originalTasks m)))"
proof -
  obtain pm pl ps where g: "groupTasks (originalTasks m) (Map.empty, [], \<lambda>p. False) = (pm, pl, ps)"
    by (cases "groupTasks (originalTasks m) (Map.empty, [], \<lambda>p. False)") auto
  have "distinct pl \<and> set pl = (\<lambda>t. tabPrefix (Name t)) ` set (originalTasks m)"
    using groupTasks_list[of "\<lambda>p. False" "[]" "originalTasks m" Map.empty] g by simp
  then have pl: "mset pl = mset (remdups (map (\<lambda>t. tabPrefix (Name t)) (originalTasks m)))"
    using set_eq_iff_mset_eq_distinct[of pl "remdups (map (\<lambda>t. tabPrefix (Name t)) (originalTasks m))"]
    by simp
  define pl1 where "pl1 = (if sortMode m = ''alpha'' then sort pl else pl)"
  have pl1: "mset pl1 = mset pl" by (simp add: pl1_def)
  define i where "i = findIndex (\<lambda>p. p = ''main'') pl1"
  have t: "tabs (buildTabs m) =
           (if i > 0 then ''main'' # (take (nat i) pl1 @ drop (nat i + 1) pl1) else pl1)"
    by (simp add: buildTabs_def g Let_def pl1_def i_def)
  have "mset (tabs (buildTabs m)) = mset pl1"
  proof (cases "i > 0")
    case True
    then have "nat i < length pl1 \<and> pl1 ! nat i = ''main''"
      using findIndex_nonneg[of "\<lambda>p. p = ''main''" pl1] by (simp add: i_def)
    with hoist_mset[of "nat i" pl1] t True show ?thesis by simp
  next
    case False
    with t show ?thesis by simp
  qed
  with pl1 pl show ?thesis by simp
qed

lemma buildTabs_tabTasks:
  "tabTasks (buildTabs m) p =
     (if p \<in> (\<lambda>t. tabPrefix (Name t)) ` set (originalTasks m)
      then Some (sortTab (sortMode m) (filter (\<lambda>t. tabPrefix (Name t) = p) (originalTasks m)))
      else None)"
proof -
  obtain pm pl ps where g: "groupTasks (originalTasks m) (Map.empty, [], \<lambda>p. False) = (pm, pl, ps)"
    by (cases "groupTasks (originalTasks m) (Map.empty, [], \<lambda>p. False)") auto
  have "pm p = (if p \<in> (\<lambda>t. tabPrefix (Name t)) ` set (originalTasks m)
      then Some (filter (\<lambda>t. tabPrefix (Name t) = p) (originalTasks m)) else None)"
    using groupTasks_map[of "originalTasks m" Map.empty "[]" "\<lambda>p. False" p] g by simp
  then show ?thesis by (simp add: buildTabs_def g Let_def)
qed

lemma concat_groups_mset:
  "distinct ps \<Longrightarrow>
   mset (concat (map (\<lambda>p. filter (\<lambda>t. f t = p) ts) ps)) = filter_mset (\<lambda>t. f t \<in> set ps) (mset ts)"
proof (induction ps)
  case Nil
  then show ?case by simp
next
  case (Cons p ps)
  then have "mset (concat (map (\<lambda>p. filter (\<lambda>t. f t = p) ts) (p # ps)))
     = filter_mset (\<lambda>t. f t = p) (mset ts) + filter_mset (\<lambda>t. f t \<in> set ps) (mset ts)"
    by simp
  also have "\<dots> = filter_mset (\<lambda>t. f t \<in> set (p # ps)) (mset ts)"
    using Cons.prems by (intro multiset_eqI) auto
  finally show ?case .
qed

lemma NewTaskModel_tabs:
  "tabs (NewTaskModel L now ts mouse project) = tabs (buildTabs (NewTaskModel L now ts mouse project))"
  "tabTasks (NewTaskModel L now ts mouse project) = tabTasks (buildTabs (NewTaskModel L now ts mouse project))"
  by (simp_all add: NewTaskModel_def Let_def buildTabs_def split_def)

lemma NewTaskModel_sortMode: "sortMode (NewTaskModel L now ts mouse project) = ''file''"
  by (simp add: NewTaskModel_def Let_def)

lemma sort_key_filter_sorted:
  "sorted (map f xs) \<Longrightarrow> sort_key f (filter P xs) = filter P xs"
  by (rule sort_key_id_if_sorted) (simp add: sorted_filter)

lemma NewTaskModel_tab_names:
  "distinct (tabs (NewTaskModel L now ts mouse project))"
  "set (tabs (NewTaskModel L now ts mouse project)) = (\<lambda>t. tabPrefix (Name t)) ` set ts"
proof -
  let ?m = "NewTaskModel L now ts mouse project"
  let ?f = "\<lambda>t. tabPrefix (Name t)"
  have tm: "mset (tabs ?m) = mset (remdups (map ?f (sort_key Line ts)))"
    using buildTabs_tabs[of ?m] by (simp add: NewTaskModel_tabs[symmetric] NewTaskModel_tasks)
  show "distinct (tabs ?m)"
    using tm by (metis distinct_remdups mset_eq_imp_distinct_iff)
  show "set (tabs ?m) = ?f ` set ts"
    using tm by (metis mset_eq_setD set_map set_remdups set_sort)
qed

lemma NewTaskModel_tab_members:
  assumes "p \<in> set (tabs (NewTaskModel L now ts mouse project))"
  shows "tabTasks (NewTaskModel L now ts mouse project) p
           = Some (filter (\<lambda>t. tabPrefix (Name t) = p) (sort_key Line ts))"
proof -
  let ?m = "NewTaskModel L now ts mouse project"
  let ?f = "\<lambda>t. tabPrefix (Name t)"
  have orig: "originalTasks ?m = sort_key Line ts" by (rule NewTaskModel_tasks)
  from assms have "p \<in> ?f ` set (originalTasks ?m)"
    using NewTaskModel_tab_names(2)[of L now ts mouse project] orig by simp
  then have "tabTasks (buildTabs ?m) p
      = Some (sortTab (sortMode ?m) (filter (\<lambda>t. ?f t = p) (originalTasks ?m)))"
    by (simp add: buildTabs_tabTasks)
  then show ?thesis
    by (simp add: NewTaskModel_tabs[symmetric] NewTaskModel_sortMode sortTab_def orig
                  sort_key_filter_sorted)
qed

lemma set_firstSeen: "set (firstSeen xs) = set xs"
  by (induction xs) auto

lemma distinct_firstSeen: "distinct (firstSeen xs)"
  by (induction xs) (auto simp: distinct_removeAll)

lemma groupTasks_firstSeen:
  assumes "\<And>p. ps p \<longleftrightarrow> p \<in> set pl"
  shows "fst (snd (groupTasks ts (pm, pl, ps)))
           = pl @ filter (\<lambda>p. p \<notin> set pl) (firstSeen (map (\<lambda>t. tabPrefix (Name t)) ts))"
  using assms
proof (induction ts arbitrary: pm pl ps)
  case Nil
  then show ?case by simp
next
  case (Cons t ts)
  let ?f = "\<lambda>t. tabPrefix (Name t)"
  let ?p = "tabPrefix (Name t)"
  let ?fs = "firstSeen (map ?f ts)"
  let ?pm = "pm(?p \<mapsto> (case pm ?p of None \<Rightarrow> [] | Some l \<Rightarrow> l) @ [t])"
  show ?case
  proof (cases "ps ?p")
    case True
    then have in_pl: "?p \<in> set pl" using Cons.prems by simp
    have eq: "filter (\<lambda>p. p \<notin> set pl) (removeAll ?p ?fs) = filter (\<lambda>p. p \<notin> set pl) ?fs"
      using in_pl by (auto simp: removeAll_filter_not_eq intro: filter_cong)
    have "fst (snd (groupTasks (t # ts) (pm, pl, ps))) = fst (snd (groupTasks ts (?pm, pl, ps)))"
      using True by (simp add: Let_def)
    also have "\<dots> = pl @ filter (\<lambda>p. p \<notin> set pl) ?fs"
      by (rule Cons.IH[OF Cons.prems])
    also have "\<dots> = pl @ filter (\<lambda>p. p \<notin> set pl) (firstSeen (map ?f (t # ts)))"
      using in_pl eq by simp
    finally show ?thesis .
  next
    case False
    then have notin: "?p \<notin> set pl" using Cons.prems by simp
    have 1: "\<And>p. (ps(?p := True)) p \<longleftrightarrow> p \<in> set (pl @ [?p])" using Cons.prems by auto
    have eq: "filter (\<lambda>p. p \<notin> set (pl @ [?p])) ?fs
                = filter (\<lambda>p. p \<notin> set pl) (removeAll ?p ?fs)"
      by (auto simp: removeAll_filter_not_eq intro: filter_cong)
    have "fst (snd (groupTasks (t # ts) (pm, pl, ps)))
            = fst (snd (groupTasks ts (?pm, pl @ [?p], ps(?p := True))))"
      using False by (simp add: Let_def)
    also have "\<dots> = (pl @ [?p]) @ filter (\<lambda>p. p \<notin> set (pl @ [?p])) ?fs"
      by (rule Cons.IH[OF 1])
    also have "\<dots> = pl @ filter (\<lambda>p. p \<notin> set pl) (firstSeen (map ?f (t # ts)))"
      using notin by (simp only: eq) simp
    finally show ?thesis .
  qed
qed

lemma findIndex_absent: "\<forall>x\<in>set xs. \<not> P x \<Longrightarrow> findIndex P xs = -1"
  by (induction xs) (simp_all add: Let_def)

lemma findIndex_present: "\<exists>x\<in>set xs. P x \<Longrightarrow> 0 \<le> findIndex P xs"
proof (induction xs)
  case Nil
  then show ?case by simp
next
  case (Cons a xs)
  show ?case
  proof (cases "P a")
    case True
    then show ?thesis by simp
  next
    case False
    with Cons.prems have "\<exists>x\<in>set xs. P x" by auto
    then have "0 \<le> findIndex P xs" by (rule Cons.IH)
    with False show ?thesis by (simp add: Let_def)
  qed
qed

lemma take_drop_removeAll:
  assumes "distinct xs" and "i < length xs"
  shows "take i xs @ drop (Suc i) xs = removeAll (xs ! i) xs"
proof -
  have xs: "xs = take i xs @ xs ! i # drop (Suc i) xs"
    using assms(2) by (rule id_take_nth_drop)
  with assms(1) have d: "distinct (take i xs @ xs ! i # drop (Suc i) xs)" by simp
  then have "xs ! i \<notin> set (take i xs)" "xs ! i \<notin> set (drop (Suc i) xs)" by auto
  then have "removeAll (xs ! i) (take i xs @ xs ! i # drop (Suc i) xs)
               = take i xs @ drop (Suc i) xs"
    by simp
  with xs show ?thesis by simp
qed

lemma hoist_mainFirst:
  assumes "distinct pl"
  shows "(let i = findIndex (\<lambda>p. p = ''main'') pl
          in if i > 0 then ''main'' # (take (nat i) pl @ drop (nat i + 1) pl) else pl)
         = mainFirst pl"
proof (cases "''main'' \<in> set pl")
  case False
  then have "findIndex (\<lambda>p. p = ''main'') pl = -1" by (intro findIndex_absent) auto
  with False show ?thesis by (simp add: mainFirst_def)
next
  case True
  define i where "i = findIndex (\<lambda>p. p = ''main'') pl"
  from True have nn: "0 \<le> i" unfolding i_def by (intro findIndex_present) auto
  then have at: "nat i < length pl" "pl ! nat i = ''main''"
    using findIndex_nonneg[of "\<lambda>p. p = ''main''" pl] by (simp_all add: i_def)
  have rm: "take (nat i) pl @ drop (Suc (nat i)) pl = removeAll ''main'' pl"
    using take_drop_removeAll[OF assms at(1)] at(2) by simp
  show ?thesis
  proof (cases "i > 0")
    case True
    with rm \<open>''main'' \<in> set pl\<close> show ?thesis by (simp add: mainFirst_def i_def[symmetric])
  next
    case False
    with nn have i0: "i = 0" by simp
    with at rm have "pl = ''main'' # removeAll ''main'' pl"
      by (cases pl) auto
    with i0 True show ?thesis by (simp add: mainFirst_def i_def[symmetric])
  qed
qed

lemma buildTabs_tabs_file:
  assumes "sortMode m = ''file''"
  shows "tabs (buildTabs m)
           = mainFirst (firstSeen (map (\<lambda>t. tabPrefix (Name t)) (originalTasks m)))"
proof -
  obtain pm pl ps where g: "groupTasks (originalTasks m) (Map.empty, [], \<lambda>p. False) = (pm, pl, ps)"
    by (cases "groupTasks (originalTasks m) (Map.empty, [], \<lambda>p. False)") auto
  have pl: "pl = firstSeen (map (\<lambda>t. tabPrefix (Name t)) (originalTasks m))"
    using groupTasks_firstSeen[of "\<lambda>p. False" "[]" "originalTasks m" Map.empty] g by simp
  then have d: "distinct pl" by (simp add: distinct_firstSeen)
  have "tabs (buildTabs m) =
          (let i = findIndex (\<lambda>p. p = ''main'') pl
           in if i > 0 then ''main'' # (take (nat i) pl @ drop (nat i + 1) pl) else pl)"
    using assms by (simp add: buildTabs_def g Let_def)
  with hoist_mainFirst[OF d] pl show ?thesis by simp
qed

lemma NewTaskModel_tab_order:
  "tabs (NewTaskModel L now ts mouse project)
     = mainFirst (firstSeen (map (\<lambda>t. tabPrefix (Name t)) (sort_key Line ts)))"
  using buildTabs_tabs_file[of "NewTaskModel L now ts mouse project"]
  by (simp add: NewTaskModel_tabs[symmetric] NewTaskModel_sortMode NewTaskModel_tasks)

text \<open>
  C5, as the code has it. For every task set, partitioning under the declaration-order
  policy and concatenating all group members (groups in tab order, members in member
  order) rearranges the declaration-order sequence without losing or repeating a task:
  the tabs are the labels in the order of their first appearance in the declaration-order
  sequence, with the default label \<open>main\<close> moved to the front when it occurs; a tab
  holds the tasks of its label in their declaration order; and the concatenation is
  these groups one after another.
\<close>

theorem partition_flatten_rearranges:
  "mset (flattenTabs (NewTaskModel L now ts mouse project)) = mset ts
   \<and> tabs (NewTaskModel L now ts mouse project)
       = mainFirst (firstSeen (map (\<lambda>t. tabPrefix (Name t)) (sort_key Line ts)))
   \<and> (''main'' \<in> set (tabs (NewTaskModel L now ts mouse project)) \<longrightarrow>
         tabs (NewTaskModel L now ts mouse project) ! 0 = ''main'')
   \<and> distinct (tabs (NewTaskModel L now ts mouse project))
   \<and> set (tabs (NewTaskModel L now ts mouse project)) = (\<lambda>t. tabPrefix (Name t)) ` set ts
   \<and> (\<forall>p\<in>set (tabs (NewTaskModel L now ts mouse project)).
         tabTasks (NewTaskModel L now ts mouse project) p
           = Some (filter (\<lambda>t. tabPrefix (Name t) = p) (sort_key Line ts)))
   \<and> flattenTabs (NewTaskModel L now ts mouse project)
       = concat (map (\<lambda>p. filter (\<lambda>t. tabPrefix (Name t) = p) (sort_key Line ts))
                   (tabs (NewTaskModel L now ts mouse project)))"
proof -
  let ?m = "NewTaskModel L now ts mouse project"
  let ?f = "\<lambda>t. tabPrefix (Name t)"
  have o: "tabs ?m = mainFirst (firstSeen (map ?f (sort_key Line ts)))"
    by (rule NewTaskModel_tab_order)
  have h: "''main'' \<in> set (tabs ?m) \<longrightarrow> tabs ?m ! 0 = ''main''"
    unfolding o by (simp add: mainFirst_def)
  have d: "distinct (tabs ?m)" and s: "set (tabs ?m) = ?f ` set ts"
    by (rule NewTaskModel_tab_names)+
  have g: "\<forall>p\<in>set (tabs ?m).
             tabTasks ?m p = Some (filter (\<lambda>t. ?f t = p) (sort_key Line ts))"
    using NewTaskModel_tab_members by blast
  have fl: "flattenTabs ?m = concat (map (\<lambda>p. filter (\<lambda>t. ?f t = p) (sort_key Line ts)) (tabs ?m))"
    unfolding flattenTabs_def by (rule arg_cong[where f = concat]) (simp add: g)
  have "mset (flattenTabs ?m) = filter_mset (\<lambda>t. ?f t \<in> set (tabs ?m)) (mset (sort_key Line ts))"
    unfolding fl using d by (rule concat_groups_mset)
  also have "\<dots> = mset ts" using s by (simp add: filter_mset_eq_conv)
  finally have m: "mset (flattenTabs ?m) = mset ts" .
  from m o h d s g fl show ?thesis by blast
qed

theorem partition_flatten_rearranges_witness:
  "map Name (flattenTabs exampleModel) = [''build'', ''db-migrate'', ''db-seed'']
   \<and> firstSeen (map (\<lambda>t. tabPrefix (Name t)) (sort_key Line exampleTasks)) = [''db'', ''main'']
   \<and> tabs exampleModel = [''main'', ''db'']
   \<and> ''main'' \<in> set (tabs exampleModel)
   \<and> tabs exampleModel ! 0 = ''main''
   \<and> ''db'' \<in> set (tabs exampleModel)
   \<and> tabTasks exampleModel ''db''
       = Some [mkTask ''db-migrate'' [] [''migrate''] 1, mkTask ''db-seed'' [] [''seed''] 3]
   \<and> mset (flattenTabs exampleModel) = mset exampleTasks"
proof -
  have a: "map Name (flattenTabs exampleModel) = [''build'', ''db-migrate'', ''db-seed'']"
    by code_simp
  have fs: "firstSeen (map (\<lambda>t. tabPrefix (Name t)) (sort_key Line exampleTasks))
              = [''db'', ''main'']"
    by code_simp
  have mf: "mainFirst [''db'', ''main''] = [''main'', ''db'']"
    by (simp add: mainFirst_def)
  have b: "filter (\<lambda>t. tabPrefix (Name t) = ''db'') (sort_key Line exampleTasks)
      = [mkTask ''db-migrate'' [] [''migrate''] 1, mkTask ''db-seed'' [] [''seed''] 3]"
    by code_simp
  note th = partition_flatten_rearranges[of asciiLib 0 exampleTasks True "''proj''",
      folded exampleModel_def]
  from th have "tabs exampleModel
      = mainFirst (firstSeen (map (\<lambda>t. tabPrefix (Name t)) (sort_key Line exampleTasks)))"
    by blast
  then have t: "tabs exampleModel = [''main'', ''db'']" by (simp only: fs mf)
  have mn: "''main'' \<in> set (tabs exampleModel)" and db: "''db'' \<in> set (tabs exampleModel)"
    by (simp_all add: t)
  from th mn have h: "tabs exampleModel ! 0 = ''main''" by blast
  from th have m: "mset (flattenTabs exampleModel) = mset exampleTasks" by blast
  from th db have "tabTasks exampleModel ''db''
      = Some (filter (\<lambda>t. tabPrefix (Name t) = ''db'') (sort_key Line exampleTasks))"
    by blast
  then have g: "tabTasks exampleModel ''db''
      = Some [mkTask ''db-migrate'' [] [''migrate''] 1, mkTask ''db-seed'' [] [''seed''] 3]"
    by (simp only: b)
  from a fs t mn h db g m show ?thesis by blast
qed

text \<open>
  C5 as stated fails: with \<open>db-migrate\<close>, \<open>build\<close>, \<open>db-seed\<close> declared in this order,
  the concatenation is \<open>build\<close>, \<open>db-migrate\<close>, \<open>db-seed\<close>.
\<close>

theorem flatten_reorders_interleaved_groups:
  "map Name (originalTasks exampleModel) = [''db-migrate'', ''build'', ''db-seed'']
   \<and> sortMode exampleModel = ''file''
   \<and> map Name (flattenTabs exampleModel) = [''build'', ''db-migrate'', ''db-seed'']"
  by code_simp

lemma plainLine_Line: "t \<in> set (plainLine L l) \<Longrightarrow> Line t = 0"
  by (auto simp: plainLine_def Let_def split: if_splits)

lemma yamlTask_Line: "t \<in> set (yamlTask L e) \<Longrightarrow> Line t = 0"
  by (auto simp: yamlTask_def Let_def split: yaml.splits)

lemma listViaPlain_Line: "t \<in> set (tasksOf (listViaPlain L out)) \<Longrightarrow> Line t = 0"
  by (cases out) (auto simp: listViaPlain_def tasksOf_def dest: plainLine_Line)

lemma parseTaskfileYAML_Line: "t \<in> set (tasksOf (parseTaskfileYAML L f)) \<Longrightarrow> Line t = 0"
  by (auto simp: parseTaskfileYAML_def tasksOf_def dest: yamlTask_Line
           split: taskfile.splits option.splits yaml.splits)

lemma enrichTaskCmds_Line_zero:
  assumes "\<And>t. t \<in> set ts \<Longrightarrow> Line t = 0" and "t \<in> set (enrichTaskCmds L f ts)"
  shows "Line t = 0"
proof -
  from assms(2) have "Line t \<in> set (map Line (enrichTaskCmds L f ts))" by simp
  then have "Line t \<in> set (map Line ts)" by (simp only: enrichTaskCmds_Line)
  with assms(1) show ?thesis by auto
qed

lemma yamlTask_Name:
  "map Name (yamlTask L e) = (case snd e of YMap rm \<Rightarrow> [fst e] | _ \<Rightarrow> [])"
  by (simp add: yamlTask_def Let_def split: yaml.splits)

lemma yaml_section_names:
  "map Name (concat (map (yamlTask L) entries))
     = map fst (filter (\<lambda>e. case snd e of YMap rm \<Rightarrow> True | _ \<Rightarrow> False) entries)"
proof (induction entries)
  case Nil
  then show ?case by simp
next
  case (Cons e entries)
  then show ?case by (simp add: yamlTask_Name split: yaml.splits)
qed

text \<open>
  C10. The JSON listing gives each task the line it reports; every task of the plain-text
  listing and of the direct YAML parse has line 0. So
  when the JSON listing yields no task, all discovered tasks have line 0, the sort by line
  at start-up leaves them as discovered, and each tab lists its tasks in that order. The
  YAML parse emits the tasks in the order in which the \<open>tasks\<close> mapping is iterated.
\<close>

theorem plain_and_yaml_lines_zero:
  "map Line (tasksOf (listViaJSON (Inr lj))) = map json_line lj
   \<and> (\<forall>t\<in>set (tasksOf (listViaPlain L out)). Line t = 0)
   \<and> (\<forall>t\<in>set (tasksOf (parseTaskfileYAML L f)). Line t = 0)
   \<and> (lookPath w = None \<and> tasksOf (listViaJSON (listJSONOut w)) = []
        \<and> fst (DiscoverTasks L w) = Inr ts \<longrightarrow>
        (\<forall>t\<in>set ts. Line t = 0)
        \<and> tasks (NewTaskModel L now ts mouse project) = ts
        \<and> originalTasks (NewTaskModel L now ts mouse project) = ts
        \<and> (\<forall>p\<in>set (tabs (NewTaskModel L now ts mouse project)).
              tabTasks (NewTaskModel L now ts mouse project) p
                = Some (filter (\<lambda>t. tabPrefix (Name t) = p) ts)))
   \<and> (map_of node ''tasks'' = Some (YMap entries) \<longrightarrow>
        map Name (tasksOf (parseTaskfileYAML L (Document node)))
          = map fst (filter (\<lambda>e. case snd e of YMap rm \<Rightarrow> True | _ \<Rightarrow> False) entries))"
proof -
  have j: "map Line (tasksOf (listViaJSON (Inr lj))) = map json_line lj"
    by (simp add: listViaJSON_def tasksOf_def)
  have a: "\<forall>t\<in>set (tasksOf (listViaPlain L out)). Line t = 0"
    using listViaPlain_Line by blast
  have b: "\<forall>t\<in>set (tasksOf (parseTaskfileYAML L f)). Line t = 0"
    using parseTaskfileYAML_Line by blast
  have c: "(\<forall>t\<in>set ts. Line t = 0)
        \<and> tasks (NewTaskModel L now ts mouse project) = ts
        \<and> originalTasks (NewTaskModel L now ts mouse project) = ts
        \<and> (\<forall>p\<in>set (tabs (NewTaskModel L now ts mouse project)).
              tabTasks (NewTaskModel L now ts mouse project) p
                = Some (filter (\<lambda>t. tabPrefix (Name t) = p) ts))"
    if lp: "lookPath w = None" and j: "tasksOf (listViaJSON (listJSONOut w)) = []"
      and r: "fst (DiscoverTasks L w) = Inr ts"
  proof -
    have z: "\<And>t. t \<in> set ts \<Longrightarrow> Line t = 0"
    proof (cases "tasksOf (listViaPlain L (listPlainOut w)) = []")
      case False
      with lp j r have "ts = enrichTaskCmds L (taskfileOut w) (tasksOf (listViaPlain L (listPlainOut w)))"
        by (simp add: DiscoverTasks_def Let_def usable_iff)
      then show "\<And>t. t \<in> set ts \<Longrightarrow> Line t = 0"
        using enrichTaskCmds_Line_zero[of "tasksOf (listViaPlain L (listPlainOut w))" _ L "taskfileOut w"]
          listViaPlain_Line by blast
    next
      case True
      with lp j r have "ts = tasksOf (parseTaskfileYAML L (taskfileOut w))"
        by (simp add: DiscoverTasks_def Let_def usable_iff split: if_splits)
      then show "\<And>t. t \<in> set ts \<Longrightarrow> Line t = 0"
        using parseTaskfileYAML_Line by blast
    qed
    then have s: "sort_key Line ts = ts" by (rule sort_key_const)
    from z s show ?thesis
      using NewTaskModel_tab_members[of _ L now ts mouse project]
      by (simp add: NewTaskModel_tasks)
  qed
  have d: "map Name (tasksOf (parseTaskfileYAML L (Document node)))
          = map fst (filter (\<lambda>e. case snd e of YMap rm \<Rightarrow> True | _ \<Rightarrow> False) entries)"
    if "map_of node ''tasks'' = Some (YMap entries)"
    using that by (simp add: parseTaskfileYAML_def tasksOf_def yaml_section_names)
  from j a b c d show ?thesis by blast
qed

theorem plain_and_yaml_lines_zero_witness:
  "lookPath worldYAML = None
   \<and> tasksOf (listViaJSON (listJSONOut worldYAML)) = []
   \<and> fst (DiscoverTasks asciiLib worldYAML)
       = Inr [mkTask ''build'' [] [''make''] 0, mkTask ''extra'' ''Extra'' [''ls''] 0]
   \<and> tasks (NewTaskModel asciiLib 0
               [mkTask ''build'' [] [''make''] 0, mkTask ''extra'' ''Extra'' [''ls''] 0] True ''proj'')
       = [mkTask ''build'' [] [''make''] 0, mkTask ''extra'' ''Extra'' [''ls''] 0]
   \<and> map_of [(''tasks'', YMap [(''zeta'', YMap []), (''skipped'', YNull), (''alpha'', YMap [])])]
         ''tasks'' = Some (YMap [(''zeta'', YMap []), (''skipped'', YNull), (''alpha'', YMap [])])
   \<and> map Name (tasksOf (parseTaskfileYAML asciiLib
         (Document [(''tasks'', YMap [(''zeta'', YMap []), (''skipped'', YNull), (''alpha'', YMap [])])])))
       = [''zeta'', ''alpha'']"
proof -
  let ?ts = "[mkTask ''build'' [] [''make''] 0, mkTask ''extra'' ''Extra'' [''ls''] 0]"
  let ?entries = "[(''zeta'', YMap []), (''skipped'', YNull), (''alpha'', YMap [])]"
  have h: "lookPath worldYAML = None" "tasksOf (listViaJSON (listJSONOut worldYAML)) = []"
    "fst (DiscoverTasks asciiLib worldYAML) = Inr ?ts"
    by code_simp+
  have n: "map_of [(''tasks'', YMap ?entries)] ''tasks'' = Some (YMap ?entries)"
    by simp
  have f: "map fst (filter (\<lambda>e. case snd e of YMap rm \<Rightarrow> True | _ \<Rightarrow> False) ?entries)
           = [''zeta'', ''alpha'']"
    by simp
  note th = plain_and_yaml_lines_zero[of _ asciiLib _ _ worldYAML ?ts 0 True "''proj''"
      "[(''tasks'', YMap ?entries)]" ?entries]
  from th h have t: "tasks (NewTaskModel asciiLib 0 ?ts True ''proj'') = ?ts" by blast
  from th n have "map Name (tasksOf (parseTaskfileYAML asciiLib (Document [(''tasks'', YMap ?entries)])))
      = map fst (filter (\<lambda>e. case snd e of YMap rm \<Rightarrow> True | _ \<Rightarrow> False) ?entries)"
    by blast
  then have y: "map Name (tasksOf (parseTaskfileYAML asciiLib (Document [(''tasks'', YMap ?entries)])))
      = [''zeta'', ''alpha'']"
    by (simp only: f)
  from h t n y show ?thesis by blast
qed

text \<open>
  C3, as the code has it. With a non-empty query the visible list is the full task set
  filtered in order (a subsequence of it, whatever the active tab), and every task shown
  has the lower-cased query inside the lower-cased text \<open>name desc commands\<close>, the three
  joined by single spaces.
\<close>

theorem updateFilter_search:
  assumes "searchQuery m \<noteq> []"
  shows "filteredTasks (updateFilter L m)
           = filter (\<lambda>t. Contains (hay L t) (ToLower L (searchQuery m))) (tasks m)
         \<and> subseq (filteredTasks (updateFilter L m)) (tasks m)
         \<and> (\<forall>t\<in>set (filteredTasks (updateFilter L m)).
               Contains (ToLower L (Name t @ '' '' @ Desc t @ '' '' @ Join (Cmds t) '' ''))
                        (ToLower L (searchQuery m)))"
  using assms by (simp add: updateFilter_filteredTasks hay_def)

theorem updateFilter_search_witness:
  "searchQuery (searchExample\<lparr>searchQuery := ''Pass''\<rparr>) \<noteq> []
   \<and> filteredTasks (updateFilter asciiLib (searchExample\<lparr>searchQuery := ''Pass''\<rparr>))
       = [mkTask ''test-pass'' [] [] 1]
   \<and> subseq (filteredTasks (updateFilter asciiLib (searchExample\<lparr>searchQuery := ''Pass''\<rparr>)))
             (tasks (searchExample\<lparr>searchQuery := ''Pass''\<rparr>))"
proof -
  let ?m = "searchExample\<lparr>searchQuery := ''Pass''\<rparr>"
  have h: "searchQuery ?m \<noteq> []" by simp
  have e: "filter (\<lambda>t. Contains (hay asciiLib t) (ToLower asciiLib (searchQuery ?m))) (tasks ?m)
           = [mkTask ''test-pass'' [] [] 1]"
    by code_simp
  note th = updateFilter_search[OF h, of asciiLib]
  from th have "filteredTasks (updateFilter asciiLib ?m)
      = filter (\<lambda>t. Contains (hay asciiLib t) (ToLower asciiLib (searchQuery ?m))) (tasks ?m)"
    by blast
  then have f: "filteredTasks (updateFilter asciiLib ?m) = [mkTask ''test-pass'' [] [] 1]"
    by (simp only: e)
  from th have s: "subseq (filteredTasks (updateFilter asciiLib ?m)) (tasks ?m)" by blast
  from h f s show ?thesis by blast
qed

text \<open>
  C3 as stated fails: after typing \<open>b c\<close> the task named \<open>ab\<close> with description \<open>cd\<close>
  is shown, though neither its name, nor its description, nor its commands contain
  \<open>b c\<close>; the match spans the separator between name and description.
\<close>

theorem search_match_spans_fields:
  "(case run asciiLib [(1, runeKey 98), (2, runeKey 32), (3, runeKey 99)]
           (NewTaskModel asciiLib 0 [mkTask ''ab'' ''cd'' [] 1] True ''proj'') of
      Inr m \<Rightarrow> searchQuery m = ''b c'' \<and> filteredTasks m = [mkTask ''ab'' ''cd'' [] 1]
    | Inl p \<Rightarrow> False)
   \<and> \<not> Contains (ToLower asciiLib ''ab'') (ToLower asciiLib ''b c'')
   \<and> \<not> Contains (ToLower asciiLib ''cd'') (ToLower asciiLib ''b c'')
   \<and> \<not> Contains (ToLower asciiLib (Join [] '' '')) (ToLower asciiLib ''b c'')"
  by code_simp

text \<open>
  C8. A refresh completion that carries an error changes the status message and its
  expiry time, and nothing else: tasks, tabs, filtered list, active tab and selection
  stay as they were.
\<close>

theorem refresh_failure_only_sets_status:
  "Update L now (Refresh ts (Some e)) m
     = Inr (m\<lparr>statusMessage := ''Refresh failed: '' @ e, statusTimeout := now + 3000000000\<rparr>,
            NoCmd)"
  by (simp add: Update_def setStatus_def)

text \<open>
  C9, as the code has it. While browsing, a key event of one rune that is printable, is
  not white space and is none of \<open>q\<close>, \<open>j\<close>, \<open>k\<close>, \<open>r\<close> switches to search mode with
  the query set to exactly that character.
\<close>

theorem typing_starts_search:
  assumes "\<not> searchMode m" and "r \<noteq> 113" and "r \<noteq> 106" and "r \<noteq> 107" and "r \<noteq> 114"
    and "IsPrint L r" and "\<not> IsSpace L r"
  shows "\<exists>m'. Update L now (Key \<lparr>Type = KeyRunes, Runes = [r], Alt = a\<rparr>) m = Inr (m', NoCmd)
              \<and> searchMode m' \<and> searchQuery m' = utf8 r"
  using assms
  by (simp add: Update_def handleKeys_def autoSearchRune_def Let_def SetValue_def Focus_def)

theorem typing_starts_search_witness:
  "\<not> searchMode oneTaskModel \<and> IsPrint asciiLib 120 \<and> \<not> IsSpace asciiLib 120
   \<and> (case Update asciiLib 1 (runeKey 120) oneTaskModel of
         Inr (m, c) \<Rightarrow> c = NoCmd \<and> searchMode m \<and> searchQuery m = ''x''
       | Inl p \<Rightarrow> False)"
proof -
  have h: "\<not> searchMode oneTaskModel" "IsPrint asciiLib 120" "\<not> IsSpace asciiLib 120"
    by code_simp+
  have u: "utf8 120 = ''x''" by code_simp
  from typing_starts_search[OF h(1) _ _ _ _ h(2) h(3), of 1 False]
  obtain m' where "Update asciiLib 1 (Key \<lparr>Type = KeyRunes, Runes = [120], Alt = False\<rparr>) oneTaskModel
      = Inr (m', NoCmd)" "searchMode m'" "searchQuery m' = utf8 120"
    by auto
  with h u show ?thesis by (simp add: runeKey_def)
qed

text \<open>
  C9 as stated fails: the space is printable and not reserved, and typing it while
  browsing leaves the browser out of search mode with an empty query.
\<close>

theorem space_does_not_start_search:
  "IsPrint asciiLib 32 \<and> \<not> searchMode oneTaskModel
   \<and> (case Update asciiLib 1 (runeKey 32) oneTaskModel of
         Inr (m, c) \<Rightarrow> \<not> searchMode m \<and> searchQuery m = []
       | Inl p \<Rightarrow> False)"
  by code_simp

text \<open>Whatever tasks a successful refresh delivers, the tabs and their members are
  those of the tasks the browser started with.\<close>

lemma buildTabs_ignores_tasks:
  "tabs (buildTabs (m\<lparr>tasks := ts\<rparr>)) = tabs (buildTabs m)"
  "tabTasks (buildTabs (m\<lparr>tasks := ts\<rparr>)) = tabTasks (buildTabs m)"
  "activeTab (buildTabs (m\<lparr>tasks := ts\<rparr>)) = activeTab (buildTabs m)"
  by (simp_all add: buildTabs_def Let_def split_def)

lemma refresh_tabs_from_originalTasks:
  "\<exists>m'. Update L now (Refresh ts None) m = Inr (m', NoCmd)
        \<and> tasks m' = ts \<and> originalTasks m' = originalTasks m
        \<and> tabs m' = tabs (buildTabs m) \<and> tabTasks m' = tabTasks (buildTabs m)"
  by (simp add: Update_def Let_def buildTabs_ignores_tasks)

text \<open>
  C1 on the code. The browser starts with the single task \<open>build\<close>; a refresh then
  delivers \<open>deploy-web\<close> and \<open>deploy-db\<close>. The task set is replaced and the notice
  counts two tasks, but the tabs, their members and the visible list are still those of
  \<open>build\<close>: \<open>buildTabs\<close> reads \<open>originalTasks\<close>, which only \<open>NewTaskModel\<close> sets.
\<close>

theorem refresh_keeps_startup_tabs:
  "(case Update asciiLib 5
           (Refresh [mkTask ''deploy-web'' [] [] 1, mkTask ''deploy-db'' [] [] 2] None)
           oneTaskModel of
      Inr (m, c) \<Rightarrow>
        map Name (tasks m) = [''deploy-web'', ''deploy-db'']
        \<and> tabs m = [''main'']
        \<and> map Name (flattenTabs m) = [''build'']
        \<and> map Name (filteredTasks m) = [''build'']
        \<and> statusMessage m = ''Refreshed - 2 tasks found''
    | Inl p \<Rightarrow> False)"
  by code_simp

text \<open>
  C2 on the code. With the single task \<open>build\<close>, typing \<open>z\<close> empties the visible list,
  \<open>end\<close> sets the selection to \<open>-1\<close>, and \<open>esc\<close> brings the list back: the list is
  non-empty and the selection is still \<open>-1\<close>. Pressing \<open>enter\<close> then indexes the list
  at \<open>-1\<close>.
\<close>

theorem end_on_empty_list_goes_negative:
  "(case run asciiLib [(1, runeKey 122), (2, namedKey ''end''), (3, namedKey ''esc'')]
           oneTaskModel of
      Inr m \<Rightarrow> selected m = -1 \<and> map Name (filteredTasks m) = [''build'']
    | Inl p \<Rightarrow> False)
   \<and> (case run asciiLib [(1, runeKey 122), (2, namedKey ''end''), (3, namedKey ''esc''),
                           (4, namedKey ''enter'')] oneTaskModel of
         Inr m \<Rightarrow> False
       | Inl p \<Rightarrow> p = IndexOutOfRange (-1) 1)"
  by code_simp

text \<open>
  C6 on the code. Five tasks in a window of 24 rows, of which three list rows are
  visible: a left press on screen row 7 selects index 3 and leaves the scroll offset at
  0, so the selected row is outside the window \<open>0..2\<close>.
\<close>

theorem mouse_selection_leaves_window:
  "(case run asciiLib [(1, WindowSize 80 24), (2, Mouse \<lparr>X = 10, Y = 7, Event = MouseLeft\<rparr>)]
           fiveTaskModel of
      Inr m \<Rightarrow> selected m = 3 \<and> listOffset m = 0 \<and> fst (visibleListHeight asciiLib m) = 3
    | Inl p \<Rightarrow> False)"
  by code_simp

end
